theory Spec2Isabelle
  imports Main
begin

section \<open>Three-address code: locations and instructions (tac.h)\<close>

text \<open>
  The machine word. \<^verbatim>\<open>CodeGenerator::VarSize\<close> and the three frame offsets are
  declared in codegen.h, which is not among the source files.

  Modelled from the spec: \<^verbatim>\<open>VarSize\<close> is the single machine word, 4 bytes; the first
  parameter sits at a positive offset, the first local at a negative one. The comment
  on \<^verbatim>\<open>Location\<close> in tac.h fixes the first local at offset -8.
\<close>

definition VarSize :: int where
  "VarSize = 4"

definition OffsetToFirstLocal :: int where
  "OffsetToFirstLocal = - 8"

definition OffsetToFirstParam :: int where
  "OffsetToFirstParam = 4"

definition OffsetToFirstGlobal :: int where
  "OffsetToFirstGlobal = 0"

datatype Segment = fpRelative | gpRelative

text \<open>
  \<^verbatim>\<open>class Location\<close>. The register is \<^verbatim>\<open>None\<close> while no register has been
  allocated.
\<close>

record Location =
  variableName :: string
  segment :: Segment
  offset :: int
  reg :: "nat option"

text \<open>
  A \<^verbatim>\<open>Location *\<close>: the address of a Location object, or \<^verbatim>\<open>NULL\<close> (\<open>None\<close>).
  \<^verbatim>\<open>typedef std::set<Location *> LocationSet\<close> is a set of such pointers.
\<close>

type_synonym LocationP = "nat option"

type_synonym LocationSet = "LocationP set"

text \<open>
  The instruction classes of tac.h, each with the fields its class declares, in the
  order of its constructor. The opcode of a \<^verbatim>\<open>BinaryOp\<close> is kept as the operator
  name it was looked up from. The frame size of a \<^verbatim>\<open>BeginFunc\<close> is \<open>None\<close> until
  \<^verbatim>\<open>SetFrameSize\<close> has written it.
\<close>

datatype Instruction =
    LoadConstant LocationP int
  | LoadStringConstant LocationP string
  | LoadLabel LocationP string
  | Assign LocationP LocationP
  | Load LocationP LocationP int
  | Store LocationP LocationP int
  | BinaryOp string LocationP LocationP LocationP
  | Label string
  | Goto string
  | IfZ LocationP string
  | BeginFunc "int option"
  | EndFunc
  | Return LocationP
  | PushParam LocationP
  | PopParams int
  | LCall string LocationP
  | ACall LocationP LocationP
  | VTable string "string list"

text \<open>
  \<^verbatim>\<open>Kill()\<close> and \<^verbatim>\<open>Gen()\<close>: the virtual methods of \<^verbatim>\<open>Instruction\<close>, which
  return the empty set unless the class overrides them. \<^verbatim>\<open>ACall (meth, result)\<close>
  carries the method address first, the result second.
\<close>

fun Kill :: "Instruction \<Rightarrow> LocationSet" where
  "Kill (LoadConstant dst val) = {dst}"
| "Kill (LoadStringConstant dst str) = {dst}"
| "Kill (LoadLabel dst label) = {dst}"
| "Kill (Assign dst src) = {dst}"
| "Kill (Load dst src off) = {dst}"
| "Kill (Store dst src off) = {dst}"
| "Kill (BinaryOp code dst op1 op2) = {dst}"
| "Kill (Return val) = {val}"
| "Kill (LCall label dst) = (case dst of None \<Rightarrow> {} | Some d \<Rightarrow> {Some d})"
| "Kill (ACall methodAddr dst) = (case dst of None \<Rightarrow> {} | Some d \<Rightarrow> {Some d})"
| "Kill _ = {}"

fun Gen :: "Instruction \<Rightarrow> LocationSet" where
  "Gen (Assign dst src) = {src}"
| "Gen (Load dst src off) = {src}"
| "Gen (Store dst src off) = {src}"
| "Gen (BinaryOp code dst op1 op2) = {op1, op2}"
| "Gen (IfZ test label) = {test}"
| "Gen (PushParam param) = {param}"
| "Gen (ACall methodAddr dst) = {methodAddr}"
| "Gen _ = {}"

section \<open>Control-flow graph (codegen.cc)\<close>

text \<open>
  What can stop the compiler: a failed \<^verbatim>\<open>Assert\<close>, a lookup
  \<^verbatim>\<open>labels->at(label)\<close> of a label that is not bound, an index outside a list,
  a null pointer that is dereferenced, and a name printed past the end of its buffer.
\<close>

datatype error = AssertFailed | LabelNotFound | IndexOutOfRange | NullPointer | BufferOverflow









section \<open>Types and method signatures (ast_type.h, ast_decl.cc)\<close>

text \<open>
  A \<^verbatim>\<open>Type *\<close> is one of the seven shared objects \<^verbatim>\<open>Type::intType\<close>, ...,
  a \<^verbatim>\<open>NamedType\<close> with the name of its identifier, or an \<^verbatim>\<open>ArrayType\<close> with
  its element type.
\<close>

datatype Type =
    intType | doubleType | voidType | boolType | nullType | stringType | errorType
  | NamedType string
  | ArrayType Type

fun GetName :: "Type \<Rightarrow> string" where
  "GetName intType = ''int''"
| "GetName doubleType = ''double''"
| "GetName voidType = ''void''"
| "GetName boolType = ''bool''"
| "GetName nullType = ''null''"
| "GetName stringType = ''string''"
| "GetName errorType = ''error''"
| "GetName (NamedType n) = n"
| "GetName (ArrayType elemType) = GetName elemType @ ''[]''"

text \<open>
  \<^verbatim>\<open>IsEquivalentTo\<close>: \<^verbatim>\<open>this == other\<close> in \<^verbatim>\<open>Type\<close>, which only a shared object
  satisfies with itself; a comparison of the two names in \<^verbatim>\<open>NamedType\<close> and
  \<^verbatim>\<open>ArrayType\<close>.
\<close>

fun IsEquivalentTo :: "Type \<Rightarrow> Type \<Rightarrow> bool" where
  "IsEquivalentTo (NamedType n) other = (n = GetName other)"
| "IsEquivalentTo (ArrayType elemType) other = (GetName (ArrayType elemType) = GetName other)"
| "IsEquivalentTo t other = (t = other)"

text \<open>
  \<^verbatim>\<open>class FnDecl\<close>: the name, the return type and the types of the formals, which
  \<^verbatim>\<open>IsMatched\<close> reads, and the label and vtable offset, which \<^verbatim>\<open>SetLabel\<close> and
  \<^verbatim>\<open>SetOffset\<close> write. A \<^verbatim>\<open>FnDecl *\<close> is an address in a heap of such objects.
\<close>

record FnDecl =
  fn_name :: string
  returnType :: Type
  formalTypes :: "Type list"
  fn_label :: string
  fn_offset :: int

type_synonym FnHeap = "nat \<Rightarrow> FnDecl"

definition IsMatched :: "FnDecl \<Rightarrow> FnDecl \<Rightarrow> bool" where
  "IsMatched this other =
     (if fn_name this \<noteq> fn_name other then False
      else if \<not> IsEquivalentTo (returnType this) (returnType other) then False
      else if length (formalTypes this) \<noteq> length (formalTypes other) then False
      else list_all2 IsEquivalentTo (formalTypes this) (formalTypes other))"

definition SetOffset :: "nat \<Rightarrow> int \<Rightarrow> FnHeap \<Rightarrow> FnHeap" where
  "SetOffset fn off h = h(fn := (h fn)\<lparr>fn_offset := off\<rparr>)"

section \<open>Layout planner: the vtable of a class (ast_decl.cc)\<close>

text \<open>
  The members of a class are variable and method declarations; the planner picks the
  methods with \<^verbatim>\<open>dynamic_cast<FnDecl *>\<close>. A class holds, after its name, the class it
  extends, as \<^verbatim>\<open>GetBase\<close> resolves it, its members, and its table \<^verbatim>\<open>methods\<close>,
  null until \<^verbatim>\<open>CollectFn\<close> has built it.
\<close>

datatype Decl = VarDeclM string Type | FnDeclM nat

datatype ClassDecl =
  ClassDecl string "ClassDecl option" "Decl list" "nat list option"

text \<open>
  The inner loop of \<^verbatim>\<open>CollectFn\<close> over \<^verbatim>\<open>auto &method : methods->Get()\<close>: every
  entry that \<^verbatim>\<open>fn\<close> matches is replaced by \<^verbatim>\<open>fn\<close>, after \<^verbatim>\<open>fn\<close> has taken its
  offset. The result is the table, the heap and the flag \<^verbatim>\<open>overriden\<close>.
\<close>

fun override :: "nat \<Rightarrow> nat list \<Rightarrow> FnHeap \<Rightarrow> nat list \<times> FnHeap \<times> bool" where
  "override fn [] h = ([], h, False)"
| "override fn (method # rest) h =
     (if IsMatched (h fn) (h method) then
        (case override fn rest (SetOffset fn (fn_offset (h method)) h) of
           (rest', h', overriden) \<Rightarrow> (fn # rest', h', True))
      else
        (case override fn rest h of
           (rest', h', overriden) \<Rightarrow> (method # rest', h', overriden)))"

text \<open>The body of the loop over the members of a class that extends another, for one method.\<close>

definition CollectFn_member :: "nat \<Rightarrow> nat list \<times> FnHeap \<Rightarrow> nat list \<times> FnHeap" where
  "CollectFn_member fn mh =
     (case mh of (methods, h) \<Rightarrow>
        (case override fn methods h of
           (methods', h', overriden) \<Rightarrow>
             if \<not> overriden then
               (methods' @ [fn], SetOffset fn (int (length methods') * VarSize) h')
             else (methods', h')))"

fun CollectFn_derived :: "Decl list \<Rightarrow> nat list \<times> FnHeap \<Rightarrow> nat list \<times> FnHeap" where
  "CollectFn_derived [] mh = mh"
| "CollectFn_derived (VarDeclM n t # rest) mh = CollectFn_derived rest mh"
| "CollectFn_derived (FnDeclM fn # rest) mh = CollectFn_derived rest (CollectFn_member fn mh)"

text \<open>The loop over the members of a class that extends nothing: every method is appended.\<close>

fun CollectFn_root :: "Decl list \<Rightarrow> nat list \<times> FnHeap \<Rightarrow> nat list \<times> FnHeap" where
  "CollectFn_root [] mh = mh"
| "CollectFn_root (VarDeclM n t # rest) mh = CollectFn_root rest mh"
| "CollectFn_root (FnDeclM fn # rest) (methods, h) =
     CollectFn_root rest
       (methods @ [fn], SetOffset fn (int (length methods) * VarSize) h)"

text \<open>
  \<^verbatim>\<open>ClassDecl::CollectFn\<close>. The result is the class with its table set (and the
  tables of the classes it extends), that table, and the heap.
\<close>

fun CollectFn :: "ClassDecl \<Rightarrow> FnHeap \<Rightarrow> ClassDecl \<times> nat list \<times> FnHeap" where
  "CollectFn (ClassDecl n ext mem (Some table)) h = (ClassDecl n ext mem (Some table), table, h)"
| "CollectFn (ClassDecl n (Some base) mem None) h =
     (case CollectFn base h of
        (base', inherited, h1) \<Rightarrow>
          (case CollectFn_derived mem (inherited, h1) of
             (table, h2) \<Rightarrow> (ClassDecl n (Some base') mem (Some table), table, h2)))"
| "CollectFn (ClassDecl n None mem None) h =
     (case CollectFn_root mem ([], h) of
        (table, h2) \<Rightarrow> (ClassDecl n None mem (Some table), table, h2))"








text \<open>Two heaps that differ in the vtable offsets of their methods at most.\<close>

definition same_sig :: "FnHeap \<Rightarrow> FnHeap \<Rightarrow> bool" where
  "same_sig h h' = (\<forall>fn. \<exists>off. h' fn = (h fn)\<lparr>fn_offset := off\<rparr>)"




text \<open>
  The hierarchy of the spec's scenario 3, \<^verbatim>\<open>A { void f(); void g(); }\<close> and
  \<^verbatim>\<open>B extends A { void f(); }\<close>, and a class \<^verbatim>\<open>C extends A { void f(int); }\<close>
  whose method has an inherited name and another signature. The methods are at the
  addresses 0 (\<open>A.f\<close>), 1 (\<open>A.g\<close>), 2 (\<open>B.f\<close>) and 3 (\<open>C.f\<close>).
\<close>

definition scenario_heap :: FnHeap where
  "scenario_heap =
     (\<lambda>a. \<lparr>fn_name = ''f'', returnType = voidType, formalTypes = [],
            fn_label = ''_A.f'', fn_offset = - 1\<rparr>)
     (1 := \<lparr>fn_name = ''g'', returnType = voidType, formalTypes = [],
             fn_label = ''_A.g'', fn_offset = - 1\<rparr>,
      2 := \<lparr>fn_name = ''f'', returnType = voidType, formalTypes = [],
             fn_label = ''_B.f'', fn_offset = - 1\<rparr>,
      3 := \<lparr>fn_name = ''f'', returnType = voidType, formalTypes = [intType],
             fn_label = ''_C.f'', fn_offset = - 1\<rparr>)"

definition scenario_A :: ClassDecl where
  "scenario_A = ClassDecl ''A'' None [FnDeclM 0, FnDeclM 1] None"


definition scenario_C :: ClassDecl where
  "scenario_C = ClassDecl ''C'' (Some scenario_A) [FnDeclM 3] None"






section \<open>The code generator (codegen.cc)\<close>

text \<open>
  The state of the lowering: the fields of \<^verbatim>\<open>CodeGenerator\<close> (the stream and the
  three counters), the two function-local static counters of \<^verbatim>\<open>NewLabel\<close> and
  \<^verbatim>\<open>GenTempVar\<close>, the heap of \<^verbatim>\<open>Location\<close> objects, where \<^verbatim>\<open>new Location\<close>
  puts an object at the next free address, and the field \<^verbatim>\<open>valLoc\<close> of every
  \<^verbatim>\<open>VarDecl\<close> object, by the address of the declaration. The counters start at 0
  and are only incremented or reset to 0.
\<close>

record CodeGenerator =
  code :: "Instruction list"
  globalCounter :: nat
  paramCounter :: nat
  localCounter :: nat
  nextLabelNum :: nat
  nextTempNum :: nat
  locations :: "Location list"
  valLocs :: "nat \<Rightarrow> LocationP"

text \<open>A step of the lowering: it stops with an error, or returns a value and the next state.\<close>

type_synonym 'a gen = "CodeGenerator \<Rightarrow> error + 'a \<times> CodeGenerator"

definition ret :: "'a \<Rightarrow> 'a gen" where
  "ret x s = Inr (x, s)"

definition fail :: "error \<Rightarrow> 'a gen" where
  "fail e s = Inl e"

definition seq :: "'a gen \<Rightarrow> ('a \<Rightarrow> 'b gen) \<Rightarrow> 'b gen" where
  "seq m f s = (case m s of Inl e \<Rightarrow> Inl e | Inr (x, s') \<Rightarrow> f x s')"

definition Assert :: "bool \<Rightarrow> unit gen" where
  "Assert b = (if b then ret () else fail AssertFailed)"

text \<open>\<^verbatim>\<open>%d\<close> of a counter.\<close>

function decimal :: "nat \<Rightarrow> string" where
  "decimal n = (if n < 10 then [''0123456789'' ! n]
                else decimal (n div 10) @ [''0123456789'' ! (n mod 10)])"
  by pat_completeness auto
termination
  by (relation "measure (\<lambda>n. n)") auto

definition Append :: "Instruction \<Rightarrow> unit gen" where
  "Append inst s = Inr ((), s\<lparr>code := code s @ [inst]\<rparr>)"

text \<open>\<^verbatim>\<open>new Location(seg, offset, name)\<close>: the new object has no register yet.\<close>

definition new_Location :: "Segment \<Rightarrow> int \<Rightarrow> string \<Rightarrow> LocationP gen" where
  "new_Location seg off name s =
     Inr (Some (length (locations s)),
          s\<lparr>locations := locations s @
               [\<lparr>variableName = name, segment = seg, offset = off, reg = None\<rparr>]\<rparr>)"

text \<open>
  \<^verbatim>\<open>NewLabel\<close> and \<^verbatim>\<open>GenTempVar\<close> print the name into \<^verbatim>\<open>char temp[10]\<close>: a label
  past \<^verbatim>\<open>_L9999999\<close> and a temporary past \<^verbatim>\<open>_tmp99999\<close> overflow the buffer.
\<close>

definition NewLabel :: "string gen" where
  "NewLabel s =
     (if 9999999 < nextLabelNum s then Inl BufferOverflow
      else Inr (''_L'' @ decimal (nextLabelNum s), s\<lparr>nextLabelNum := Suc (nextLabelNum s)\<rparr>))"

definition GenTempVar :: "LocationP gen" where
  "GenTempVar s =
     (if 99999 < nextTempNum s then Inl BufferOverflow
      else new_Location fpRelative (OffsetToFirstLocal - VarSize * int (localCounter s))
             (''_tmp'' @ decimal (nextTempNum s))
             (s\<lparr>nextTempNum := Suc (nextTempNum s), localCounter := Suc (localCounter s)\<rparr>))"

definition GenLocalVar :: "string \<Rightarrow> LocationP gen" where
  "GenLocalVar name s =
     new_Location fpRelative (OffsetToFirstLocal - VarSize * int (localCounter s)) name
       (s\<lparr>localCounter := Suc (localCounter s)\<rparr>)"

definition GenGlobalVar :: "string \<Rightarrow> LocationP gen" where
  "GenGlobalVar name s =
     new_Location gpRelative (OffsetToFirstGlobal + VarSize * int (globalCounter s)) name
       (s\<lparr>globalCounter := Suc (globalCounter s)\<rparr>)"

definition GenParamVar :: "string \<Rightarrow> LocationP gen" where
  "GenParamVar name s =
     new_Location fpRelative (OffsetToFirstParam + VarSize * int (paramCounter s)) name
       (s\<lparr>paramCounter := Suc (paramCounter s)\<rparr>)"

definition GenThis :: "LocationP gen" where
  "GenThis = new_Location fpRelative OffsetToFirstParam ''this''"

definition GenLoadConstant :: "int \<Rightarrow> LocationP gen" where
  "GenLoadConstant v = seq GenTempVar (\<lambda>result. seq (Append (LoadConstant result v)) (\<lambda>_. ret result))"

text \<open>The overload \<^verbatim>\<open>GenLoadConstant(const char *)\<close>.\<close>

definition GenLoadStringConstant :: "string \<Rightarrow> LocationP gen" where
  "GenLoadStringConstant str =
     seq GenTempVar (\<lambda>result. seq (Append (LoadStringConstant result str)) (\<lambda>_. ret result))"

definition GenLoadLabel :: "string \<Rightarrow> LocationP gen" where
  "GenLoadLabel label = seq GenTempVar (\<lambda>result. seq (Append (LoadLabel result label)) (\<lambda>_. ret result))"

definition GenAssign :: "LocationP \<Rightarrow> LocationP \<Rightarrow> unit gen" where
  "GenAssign dst src = Append (Assign dst src)"

definition GenLoad :: "LocationP \<Rightarrow> int \<Rightarrow> LocationP gen" where
  "GenLoad ref off = seq GenTempVar (\<lambda>result. seq (Append (Load result ref off)) (\<lambda>_. ret result))"

definition GenStore :: "LocationP \<Rightarrow> LocationP \<Rightarrow> int \<Rightarrow> unit gen" where
  "GenStore dst src off = Append (Store dst src off)"

definition GenBinaryOp :: "string \<Rightarrow> LocationP \<Rightarrow> LocationP \<Rightarrow> LocationP gen" where
  "GenBinaryOp opName op1 op2 =
     seq GenTempVar (\<lambda>result. seq (Append (BinaryOp opName result op1 op2)) (\<lambda>_. ret result))"

definition GenLabel :: "string \<Rightarrow> unit gen" where
  "GenLabel label = Append (Label label)"

definition GenIfZ :: "LocationP \<Rightarrow> string \<Rightarrow> unit gen" where
  "GenIfZ test label = Append (IfZ test label)"

definition GenGoto :: "string \<Rightarrow> unit gen" where
  "GenGoto label = Append (Goto label)"

definition GenReturn :: "LocationP \<Rightarrow> unit gen" where
  "GenReturn val = Append (Return val)"

text \<open>
  \<^verbatim>\<open>GenBeginFunc\<close> returns the \<^verbatim>\<open>BeginFunc *\<close>, the position of the new instruction
  in the stream; \<^verbatim>\<open>beginFunc->SetFrameSize(n)\<close> writes the frame size there.
\<close>

definition GenBeginFunc :: "nat gen" where
  "GenBeginFunc s = Inr (length (code s), s\<lparr>code := code s @ [BeginFunc None]\<rparr>)"

definition SetFrameSize :: "nat \<Rightarrow> int \<Rightarrow> unit gen" where
  "SetFrameSize beginFunc n s = Inr ((), s\<lparr>code := (code s)[beginFunc := BeginFunc (Some n)]\<rparr>)"

definition GetFrameSize :: "int gen" where
  "GetFrameSize s = Inr (VarSize * int (localCounter s), s)"

definition GenEndFunc :: "unit gen" where
  "GenEndFunc s = Inr ((), s\<lparr>code := code s @ [EndFunc], localCounter := 0, paramCounter := 0\<rparr>)"

definition GenPushParam :: "LocationP \<Rightarrow> unit gen" where
  "GenPushParam param = Append (PushParam param)"

definition GenPopParams :: "int \<Rightarrow> unit gen" where
  "GenPopParams numBytesOfParams =
     seq (Assert (numBytesOfParams \<ge> 0 \<and> numBytesOfParams mod VarSize = 0))
       (\<lambda>_. if numBytesOfParams > 0 then Append (PopParams numBytesOfParams) else ret ())"

definition GenLCall :: "string \<Rightarrow> bool \<Rightarrow> LocationP gen" where
  "GenLCall label fnHasReturnValue =
     seq (if fnHasReturnValue then GenTempVar else ret None)
       (\<lambda>result. seq (Append (LCall label result)) (\<lambda>_. ret result))"

definition GenACall :: "LocationP \<Rightarrow> bool \<Rightarrow> LocationP gen" where
  "GenACall fnAddr fnHasReturnValue =
     seq (if fnHasReturnValue then GenTempVar else ret None)
       (\<lambda>result. seq (Append (ACall fnAddr result)) (\<lambda>_. ret result))"

text \<open>
  The built-in routines. The enumeration \<^verbatim>\<open>BuiltIn\<close> is declared in codegen.h, which
  is not among the source files; the table \<^verbatim>\<open>builtins[]\<close> of codegen.cc is indexed
  by it.

  Modelled from the spec: the built-ins are \<open>Alloc, ReadLine, ReadInteger, StringEqual,
  PrintInt, PrintString, PrintBool, Halt\<close>, in the order of the table.
\<close>

datatype BuiltIn =
  Alloc | ReadLine | ReadInteger | StringEqual | PrintInt | PrintString | PrintBool | Halt

record builtin =
  label :: string
  numArgs :: nat
  hasReturn :: bool

fun builtins :: "BuiltIn \<Rightarrow> builtin" where
  "builtins Alloc = \<lparr>label = ''_Alloc'', numArgs = 1, hasReturn = True\<rparr>"
| "builtins ReadLine = \<lparr>label = ''_ReadLine'', numArgs = 0, hasReturn = True\<rparr>"
| "builtins ReadInteger = \<lparr>label = ''_ReadInteger'', numArgs = 0, hasReturn = True\<rparr>"
| "builtins StringEqual = \<lparr>label = ''_StringEqual'', numArgs = 2, hasReturn = True\<rparr>"
| "builtins PrintInt = \<lparr>label = ''_PrintInt'', numArgs = 1, hasReturn = False\<rparr>"
| "builtins PrintString = \<lparr>label = ''_PrintString'', numArgs = 1, hasReturn = False\<rparr>"
| "builtins PrintBool = \<lparr>label = ''_PrintBool'', numArgs = 1, hasReturn = False\<rparr>"
| "builtins Halt = \<lparr>label = ''_Halt'', numArgs = 0, hasReturn = False\<rparr>"

text \<open>
  \<^verbatim>\<open>GenBuiltInCall(bn, arg1, arg2)\<close>; an argument that is left out is \<^verbatim>\<open>NULL\<close>.
\<close>

definition GenBuiltInCall :: "BuiltIn \<Rightarrow> LocationP \<Rightarrow> LocationP \<Rightarrow> LocationP gen" where
  "GenBuiltInCall bn arg1 arg2 =
     (let b = builtins bn in
      seq (if hasReturn b then GenTempVar else ret None) (\<lambda>result.
      seq (Assert ((numArgs b = 0 \<and> arg1 = None \<and> arg2 = None) \<or>
                   (numArgs b = 1 \<and> arg1 \<noteq> None \<and> arg2 = None) \<or>
                   (numArgs b = 2 \<and> arg1 \<noteq> None \<and> arg2 \<noteq> None))) (\<lambda>_.
      seq (if arg2 \<noteq> None then Append (PushParam arg2) else ret ()) (\<lambda>_.
      seq (if arg1 \<noteq> None then Append (PushParam arg1) else ret ()) (\<lambda>_.
      seq (Append (LCall (label b) result)) (\<lambda>_.
      seq (GenPopParams (VarSize * int (numArgs b))) (\<lambda>_.
      ret result)))))))"

definition GenVTable :: "string \<Rightarrow> string list \<Rightarrow> unit gen" where
  "GenVTable className methodLabels = Append (VTable className methodLabels)"

text \<open>The code generator as its constructor leaves it; no declaration has a location yet.\<close>

definition CodeGenerator_init :: CodeGenerator where
  "CodeGenerator_init =
     \<lparr>code = [], globalCounter = 0, paramCounter = 0, localCounter = 0,
      nextLabelNum = 0, nextTempNum = 0, locations = [], valLocs = (\<lambda>decl. None)\<rparr>"

declare decimal.simps [simp del]

text \<open>
  The state after \<^verbatim>\<open>GenLoadConstant("a")\<close> and \<^verbatim>\<open>GenLoadConstant("b")\<close> in a fresh
  code generator: two temporaries, at the addresses 0 and 1.
\<close>

definition two_strings :: CodeGenerator where
  "two_strings =
     \<lparr>code = [LoadStringConstant (Some 0) ''a'', LoadStringConstant (Some 1) ''b''],
      globalCounter = 0, paramCounter = 0, localCounter = 2,
      nextLabelNum = 0, nextTempNum = 2,
      locations = [\<lparr>variableName = ''_tmp0'', segment = fpRelative, offset = - 8, reg = None\<rparr>,
                   \<lparr>variableName = ''_tmp1'', segment = fpRelative, offset = - 12, reg = None\<rparr>],
      valLocs = (\<lambda>decl. None)\<rparr>"

section \<open>Lowering of expressions (ast_expr.h, ast_expr.cc)\<close>

text \<open>
  The two error literals are declared in errors.h, which is not among the source files.

  Modelled from the spec: a runtime guard prints a fixed error literal before \<open>Halt\<close>,
  one for an index out of bounds and one for a non-positive array size.
\<close>

definition err_arr_out_of_bounds :: string where
  "err_arr_out_of_bounds = ''Decaf runtime error: Array subscript out of bounds''"

definition err_arr_bad_size :: string where
  "err_arr_bad_size = ''Decaf runtime error: Array size is <= 0''"

text \<open>
  The tree as the checker hands it over. A \<^verbatim>\<open>FieldAccess\<close> holds its \<^verbatim>\<open>VarDecl *var\<close>:
  the address of the declaration and the field \<^verbatim>\<open>offset\<close> of the declaration. A
  \<^verbatim>\<open>Call\<close> holds its \<^verbatim>\<open>FnDecl *fn\<close>, of which \<^verbatim>\<open>Call::Emit\<close> reads the parent, the
  return type and the label or the vtable offset: a function of the program, a method
  of a class, the function \<^verbatim>\<open>arrayLengthFn\<close>, or a function with another parent.
  \<open>None\<close> is the null pointer that the checker leaves when it finds no declaration.
\<close>

datatype VarRef = VarRef nat int

datatype FnRef = GlobalFn string Type | MethodFn int Type | ArrayLengthFn | OtherFn Type

text \<open>
  The expression classes. \<^verbatim>\<open>EmptyExpr\<close> is built by the constructor \<^verbatim>\<open>Expr()\<close>,
  which does not initialise \<^verbatim>\<open>valLoc\<close>: the node carries whatever the field holds.
  An \<^verbatim>\<open>EqualityExpr\<close> carries the type that the checker gave its left operand, which
  \<^verbatim>\<open>left->GetType()\<close> reads. A compound expression without left operand is unary. A
  \<^verbatim>\<open>NewExpr\<close> carries the name and the size of the class that \<^verbatim>\<open>FindClassDecl\<close> finds.
\<close>

datatype Expr =
    EmptyExpr LocationP
  | IntConstant int
  | DoubleConstant
  | BoolConstant bool
  | StringConstant string
  | NullConstant
  | ArithmeticExpr "Expr option" string Expr
  | RelationalExpr Expr string Expr
  | EqualityExpr Type Expr string Expr
  | LogicalExpr "Expr option" string Expr
  | AssignExpr Expr Expr
  | This
  | ArrayAccess Expr Expr
  | FieldAccess "Expr option" "VarRef option"
  | Call "Expr option" "FnRef option" "Expr list"
  | NewExpr "(string \<times> int) option"
  | NewArrayExpr Expr
  | ReadIntegerExpr
  | ReadLineExpr

text \<open>
  What \<^verbatim>\<open>Emit\<close> leaves in a node for \<^verbatim>\<open>GetValue\<close>: the field \<^verbatim>\<open>valLoc\<close> of a plain
  expression; the fields \<^verbatim>\<open>valLoc\<close>, \<^verbatim>\<open>addr\<close> and \<^verbatim>\<open>offset\<close> of an \<^verbatim>\<open>LValue\<close>.
  \<^verbatim>\<open>Expr::GetValue\<close> returns \<^verbatim>\<open>valLoc\<close>; \<^verbatim>\<open>LValue::GetValue\<close> returns \<^verbatim>\<open>valLoc\<close>
  when it is set and loads from the address otherwise, at every call.
\<close>

datatype Handle = Plain LocationP | LV LocationP LocationP int

fun GetValue :: "Handle \<Rightarrow> LocationP gen" where
  "GetValue (Plain valLoc) = ret valLoc"
| "GetValue (LV (Some valLoc) addr off) = ret (Some valLoc)"
| "GetValue (LV None addr off) = seq (Assert (addr \<noteq> None)) (\<lambda>_. GenLoad addr off)"

text \<open>\<^verbatim>\<open>LValue::Assign\<close>, on the fields of the node.\<close>

fun LValue_Assign :: "Handle \<Rightarrow> LocationP \<Rightarrow> unit gen" where
  "LValue_Assign (LV (Some valLoc) addr off) src = GenAssign (Some valLoc) src"
| "LValue_Assign (LV None addr off) src =
     seq (Assert (addr \<noteq> None)) (\<lambda>_.
     seq (Assert (src \<noteq> None)) (\<lambda>_.
     GenStore addr src off))"
| "LValue_Assign (Plain valLoc) src = fail NullPointer"

text \<open>The classes derived from \<^verbatim>\<open>LValue\<close>, which \<^verbatim>\<open>dynamic_cast<LValue *>\<close> lets through.\<close>

fun is_LValue :: "Expr \<Rightarrow> bool" where
  "is_LValue (ArrayAccess base subscript) = True"
| "is_LValue (FieldAccess base var) = True"
| "is_LValue _ = False"

text \<open>\<^verbatim>\<open>var->GetValue()\<close>: the field \<^verbatim>\<open>valLoc\<close> of the declaration at an address.\<close>

definition VarDecl_GetValue :: "nat \<Rightarrow> LocationP gen" where
  "VarDecl_GetValue decl s = Inr (valLocs s decl, s)"

text \<open>The loop \<^verbatim>\<open>for (auto param : params.Get()) codeGen.GenPushParam(param)\<close>.\<close>

fun PushParams :: "LocationP list \<Rightarrow> unit gen" where
  "PushParams [] = ret ()"
| "PushParams (param # params) = seq (GenPushParam param) (\<lambda>_. PushParams params)"

text \<open>
  \<^verbatim>\<open>Emit\<close> of every expression class, and the loop of \<^verbatim>\<open>Call::Emit\<close> over the
  actuals, which emits an actual, reads its value and inserts it at the front of
  \<^verbatim>\<open>params\<close>. The result of \<open>Emit\<close> is what \<^verbatim>\<open>GetValue\<close> of the node will read; an
  \<^verbatim>\<open>AssignExpr\<close> never sets its own \<^verbatim>\<open>valLoc\<close>, so its \<^verbatim>\<open>GetValue\<close> is that of
  its left operand.
\<close>

fun Emit :: "Expr \<Rightarrow> Handle gen"
  and EmitActuals :: "Expr list \<Rightarrow> LocationP list \<Rightarrow> LocationP list gen" where
  "Emit (EmptyExpr valLoc) = ret (Plain valLoc)"
| "Emit (IntConstant v) = seq (GenLoadConstant v) (\<lambda>r. ret (Plain r))"
| "Emit DoubleConstant = fail AssertFailed"
| "Emit (BoolConstant b) = seq (GenLoadConstant (if b then 1 else 0)) (\<lambda>r. ret (Plain r))"
| "Emit (StringConstant str) = seq (GenLoadStringConstant str) (\<lambda>r. ret (Plain r))"
| "Emit NullConstant = seq (GenLoadConstant 0) (\<lambda>r. ret (Plain r))"
| "Emit (ArithmeticExpr (Some left) tok right) =
     seq (Emit right) (\<lambda>hr.
     seq (GetValue hr) (\<lambda>rhs.
     seq (Emit left) (\<lambda>hl.
     seq (GetValue hl) (\<lambda>lhs.
     seq (GenBinaryOp tok lhs rhs) (\<lambda>r. ret (Plain r))))))"
| "Emit (ArithmeticExpr None tok right) =
     seq (Emit right) (\<lambda>hr.
     seq (GetValue hr) (\<lambda>rhs.
     seq (GenLoadConstant 0) (\<lambda>lhs.
     seq (GenBinaryOp tok lhs rhs) (\<lambda>r. ret (Plain r)))))"
| "Emit (RelationalExpr left tok right) =
     seq (Emit left) (\<lambda>hl.
     seq (Emit right) (\<lambda>hr.
     seq (GetValue hl) (\<lambda>lhs.
     seq (GetValue hr) (\<lambda>rhs.
     if tok = ''<'' then seq (GenBinaryOp ''<'' lhs rhs) (\<lambda>r. ret (Plain r))
     else if tok = ''>'' then seq (GenBinaryOp ''<'' rhs lhs) (\<lambda>r. ret (Plain r))
     else if tok = ''<='' then
       seq (GenBinaryOp ''<'' lhs rhs) (\<lambda>lt.
       seq (GenBinaryOp ''=='' lhs rhs) (\<lambda>eq.
       seq (GenBinaryOp ''||'' lt eq) (\<lambda>r. ret (Plain r))))
     else if tok = ''>='' then
       seq (GenBinaryOp ''<'' rhs lhs) (\<lambda>gt.
       seq (GenBinaryOp ''=='' lhs rhs) (\<lambda>eq.
       seq (GenBinaryOp ''||'' gt eq) (\<lambda>r. ret (Plain r))))
     else fail AssertFailed))))"
| "Emit (EqualityExpr leftType left tok right) =
     seq (Emit left) (\<lambda>hl.
     seq (Emit right) (\<lambda>hr.
     seq (GetValue hl) (\<lambda>lhs.
     seq (GetValue hr) (\<lambda>rhs.
     seq (if leftType = stringType then GenBuiltInCall StringEqual lhs rhs
          else GenBinaryOp ''=='' lhs rhs) (\<lambda>eq.
     if tok = ''=='' then ret (Plain eq)
     else if tok = ''!='' then
       seq (GenLoadConstant 0) (\<lambda>zero.
       seq (GenBinaryOp ''=='' eq zero) (\<lambda>r. ret (Plain r)))
     else ret (Plain None))))))"
| "Emit (LogicalExpr (Some left) tok right) =
     seq (Emit right) (\<lambda>hr.
     seq (GetValue hr) (\<lambda>rhs.
     seq (Emit left) (\<lambda>hl.
     seq (GetValue hl) (\<lambda>lhs.
     seq (GenBinaryOp tok lhs rhs) (\<lambda>r. ret (Plain r))))))"
| "Emit (LogicalExpr None tok right) =
     seq (Emit right) (\<lambda>hr.
     seq (GetValue hr) (\<lambda>rhs.
     seq (Assert (tok = ''!'')) (\<lambda>_.
     seq (GenLoadConstant 0) (\<lambda>lhs.
     seq (GenBinaryOp ''=='' lhs rhs) (\<lambda>r. ret (Plain r))))))"
| "Emit (AssignExpr left right) =
     seq (Emit left) (\<lambda>hl.
     seq (Emit right) (\<lambda>hr.
     seq (GetValue hr) (\<lambda>rhs.
     seq (if is_LValue left then LValue_Assign hl rhs else fail NullPointer) (\<lambda>_.
     ret hl))))"
| "Emit This = seq GenThis (\<lambda>r. ret (Plain r))"
| "Emit (ArrayAccess base subscript) =
     seq (Emit base) (\<lambda>hb.
     seq (Emit subscript) (\<lambda>hs.
     seq (GetValue hb) (\<lambda>array.
     seq (GetValue hs) (\<lambda>index.
     seq (GenLoad array (- VarSize)) (\<lambda>len.
     seq NewLabel (\<lambda>labelHalt.
     seq NewLabel (\<lambda>labelAfter.
     seq (GenLoadConstant (- 1)) (\<lambda>negOne.
     seq (GenBinaryOp ''<'' negOne index) (\<lambda>lower.
     seq (GenBinaryOp ''<'' index len) (\<lambda>upper.
     seq (GenBinaryOp ''&&'' lower upper) (\<lambda>test.
     seq (GenIfZ test labelHalt) (\<lambda>_.
     seq (GenLoadConstant VarSize) (\<lambda>varSize.
     seq (GenBinaryOp ''*'' index varSize) (\<lambda>off.
     seq (GenBinaryOp ''+'' array off) (\<lambda>addr.
     seq (GenGoto labelAfter) (\<lambda>_.
     seq (GenLabel labelHalt) (\<lambda>_.
     seq (GenLoadStringConstant err_arr_out_of_bounds) (\<lambda>message.
     seq (GenBuiltInCall PrintString message None) (\<lambda>_.
     seq (GenBuiltInCall Halt None None) (\<lambda>_.
     seq (GenLabel labelAfter) (\<lambda>_.
     ret (LV None addr 0))))))))))))))))))))))"
| "Emit (FieldAccess base None) = fail AssertFailed"
| "Emit (FieldAccess None (Some (VarRef decl off))) =
     seq (VarDecl_GetValue decl) (\<lambda>valLoc.
     case valLoc of
       Some loc \<Rightarrow> ret (LV (Some loc) None 0)
     | None \<Rightarrow> seq GenThis (\<lambda>addr. ret (LV None addr off)))"
| "Emit (FieldAccess (Some base) (Some (VarRef decl off))) =
     seq (VarDecl_GetValue decl) (\<lambda>valLoc.
     case valLoc of
       Some loc \<Rightarrow> ret (LV (Some loc) None 0)
     | None \<Rightarrow>
         seq (Emit base) (\<lambda>hb.
         seq (GetValue hb) (\<lambda>addr. ret (LV None addr off))))"
| "Emit (Call base None actuals) = fail AssertFailed"
| "Emit (Call base (Some (GlobalFn lbl rt)) actuals) =
     seq (EmitActuals actuals []) (\<lambda>params.
     seq (PushParams params) (\<lambda>_.
     seq (GenLCall lbl (rt \<noteq> voidType)) (\<lambda>r.
     seq (GenPopParams (int (length params) * VarSize)) (\<lambda>_.
     ret (Plain r)))))"
| "Emit (Call (Some base) (Some (MethodFn off rt)) actuals) =
     seq (Emit base) (\<lambda>hb.
     seq (GetValue hb) (\<lambda>object.
     seq (GenLoad object 0) (\<lambda>vtable.
     seq (GenLoad vtable off) (\<lambda>addr.
     seq (EmitActuals actuals [object]) (\<lambda>params.
     seq (PushParams params) (\<lambda>_.
     seq (GenACall addr (rt \<noteq> voidType)) (\<lambda>r.
     seq (GenPopParams (int (length params) * VarSize)) (\<lambda>_.
     ret (Plain r)))))))))"
| "Emit (Call None (Some (MethodFn off rt)) actuals) =
     seq GenThis (\<lambda>object.
     seq (GenLoad object 0) (\<lambda>vtable.
     seq (GenLoad vtable off) (\<lambda>addr.
     seq (EmitActuals actuals [object]) (\<lambda>params.
     seq (PushParams params) (\<lambda>_.
     seq (GenACall addr (rt \<noteq> voidType)) (\<lambda>r.
     seq (GenPopParams (int (length params) * VarSize)) (\<lambda>_.
     ret (Plain r))))))))"
| "Emit (Call None (Some ArrayLengthFn) actuals) = fail AssertFailed"
| "Emit (Call (Some base) (Some ArrayLengthFn) actuals) =
     seq (Emit base) (\<lambda>hb.
     seq (GetValue hb) (\<lambda>array.
     seq (GenLoad array (- VarSize)) (\<lambda>r. ret (Plain r))))"
| "Emit (Call base (Some (OtherFn rt)) actuals) = ret (Plain None)"
| "Emit (NewExpr None) = fail AssertFailed"
| "Emit (NewExpr (Some (className, classSize))) =
     seq (GenLoadConstant classSize) (\<lambda>sz.
     seq (GenBuiltInCall Alloc sz None) (\<lambda>valLoc.
     seq (GenLoadLabel className) (\<lambda>vtable.
     seq (GenStore valLoc vtable 0) (\<lambda>_.
     ret (Plain valLoc)))))"
| "Emit (NewArrayExpr sizeExpr) =
     seq (Emit sizeExpr) (\<lambda>hs.
     seq (GetValue hs) (\<lambda>len.
     seq (GenLoadConstant 1) (\<lambda>one.
     seq NewLabel (\<lambda>labelAfter.
     seq (GenBinaryOp ''<'' len one) (\<lambda>test.
     seq (GenIfZ test labelAfter) (\<lambda>_.
     seq (GenLoadStringConstant err_arr_bad_size) (\<lambda>message.
     seq (GenBuiltInCall PrintString message None) (\<lambda>_.
     seq (GenBuiltInCall Halt None None) (\<lambda>_.
     seq (GenLabel labelAfter) (\<lambda>_.
     seq (GenLoadConstant VarSize) (\<lambda>varSize.
     seq (GenBinaryOp ''*'' varSize len) (\<lambda>arraySize.
     seq (GenBinaryOp ''+'' varSize arraySize) (\<lambda>totalSize.
     seq (GenBuiltInCall Alloc totalSize None) (\<lambda>addr.
     seq (GenStore addr len 0) (\<lambda>_.
     seq (GenBinaryOp ''+'' addr varSize) (\<lambda>r. ret (Plain r)))))))))))))))))"
| "Emit ReadIntegerExpr = seq (GenBuiltInCall ReadInteger None None) (\<lambda>r. ret (Plain r))"
| "Emit ReadLineExpr = seq (GenBuiltInCall ReadLine None None) (\<lambda>r. ret (Plain r))"
| "EmitActuals [] params = ret params"
| "EmitActuals (actual # rest) params =
     seq (Emit actual) (\<lambda>h.
     seq (GetValue h) (\<lambda>param.
     EmitActuals rest (param # params)))"

text \<open>
  The actuals of a call evaluated from left to right: every actual is emitted and its
  value read before the next one; the values are returned in the order of the
  arguments.
\<close>

fun EvalActuals :: "Expr list \<Rightarrow> LocationP list gen" where
  "EvalActuals [] = ret []"
| "EvalActuals (actual # rest) =
     seq (Emit actual) (\<lambda>h.
     seq (GetValue h) (\<lambda>param.
     seq (EvalActuals rest) (\<lambda>params. ret (param # params))))"

section \<open>Lowering of statements and functions (ast_stmt.cc, ast_decl.cc)\<close>

text \<open>
  \<^verbatim>\<open>VarDecl::Emit\<close>, by the parent of the declaration: a formal of a function, a
  variable of a block, a variable of the program. The declaration, known by its
  address, keeps the new location in \<^verbatim>\<open>valLoc\<close>. A variable of a class gets none.
\<close>

definition set_valLoc :: "nat \<Rightarrow> LocationP \<Rightarrow> unit gen" where
  "set_valLoc decl loc s = Inr ((), s\<lparr>valLocs := (valLocs s)(decl := loc)\<rparr>)"

definition VarDecl_Emit_formal :: "nat \<times> string \<Rightarrow> unit gen" where
  "VarDecl_Emit_formal var = seq (GenParamVar (snd var)) (set_valLoc (fst var))"

definition VarDecl_Emit_local :: "nat \<times> string \<Rightarrow> unit gen" where
  "VarDecl_Emit_local var = seq (GenLocalVar (snd var)) (set_valLoc (fst var))"

definition VarDecl_Emit_global :: "nat \<times> string \<Rightarrow> unit gen" where
  "VarDecl_Emit_global var = seq (GenGlobalVar (snd var)) (set_valLoc (fst var))"

fun EmitFormals :: "(nat \<times> string) list \<Rightarrow> unit gen" where
  "EmitFormals [] = ret ()"
| "EmitFormals (var # rest) = seq (VarDecl_Emit_formal var) (\<lambda>_. EmitFormals rest)"

fun EmitLocals :: "(nat \<times> string) list \<Rightarrow> unit gen" where
  "EmitLocals [] = ret ()"
| "EmitLocals (var # rest) = seq (VarDecl_Emit_local var) (\<lambda>_. EmitLocals rest)"

text \<open>
  The statement classes. A declaration of a block is the address of its \<^verbatim>\<open>VarDecl\<close>
  and its name. An argument of a \<^verbatim>\<open>PrintStmt\<close> carries the type that the checker gave
  it. An expression is a statement too.
\<close>

datatype Stmt =
    ExprStmt Expr
  | StmtBlock "(nat \<times> string) list" "Stmt list"
  | IfStmt Expr Stmt "Stmt option"
  | WhileStmt Expr Stmt
  | ForStmt Expr Expr Expr Stmt
  | BreakStmt
  | ReturnStmt Expr
  | PrintStmt "(Type \<times> Expr) list"

text \<open>The loop of \<^verbatim>\<open>PrintStmt::Emit\<close> over the arguments.\<close>

fun EmitPrintArgs :: "(Type \<times> Expr) list \<Rightarrow> unit gen" where
  "EmitPrintArgs [] = ret ()"
| "EmitPrintArgs ((type, expr) # rest) =
     seq (Emit expr) (\<lambda>h.
     seq (GetValue h) (\<lambda>val.
     seq (if type = stringType then seq (GenBuiltInCall PrintString val None) (\<lambda>_. ret ())
          else if type = intType then seq (GenBuiltInCall PrintInt val None) (\<lambda>_. ret ())
          else if type = boolType then seq (GenBuiltInCall PrintBool val None) (\<lambda>_. ret ())
          else ret ()) (\<lambda>_.
     EmitPrintArgs rest)))"

text \<open>
  \<^verbatim>\<open>Emit\<close> of every statement class. The first argument is the field
  \<^verbatim>\<open>labelAfter\<close> of the loop that encloses the statement, which a \<^verbatim>\<open>BreakStmt\<close>
  reads through its pointer \<^verbatim>\<open>loop\<close>; it is \<open>None\<close> outside every loop, where the
  pointer is null.
\<close>

fun EmitStmt :: "string option \<Rightarrow> Stmt \<Rightarrow> unit gen"
  and EmitStmts :: "string option \<Rightarrow> Stmt list \<Rightarrow> unit gen" where
  "EmitStmt loop (ExprStmt expr) = seq (Emit expr) (\<lambda>_. ret ())"
| "EmitStmt loop (StmtBlock decls stmts) = seq (EmitLocals decls) (\<lambda>_. EmitStmts loop stmts)"
| "EmitStmt loop (IfStmt test body (Some elseBody)) =
     seq (Emit test) (\<lambda>h.
     seq (GetValue h) (\<lambda>val.
     seq (Assert (val \<noteq> None)) (\<lambda>_.
     seq NewLabel (\<lambda>labelAfter.
     seq NewLabel (\<lambda>labelElse.
     seq (GenIfZ val labelElse) (\<lambda>_.
     seq (EmitStmt loop body) (\<lambda>_.
     seq (GenGoto labelAfter) (\<lambda>_.
     seq (GenLabel labelElse) (\<lambda>_.
     seq (EmitStmt loop elseBody) (\<lambda>_.
     GenLabel labelAfter))))))))))"
| "EmitStmt loop (IfStmt test body None) =
     seq (Emit test) (\<lambda>h.
     seq (GetValue h) (\<lambda>val.
     seq (Assert (val \<noteq> None)) (\<lambda>_.
     seq NewLabel (\<lambda>labelAfter.
     seq (GenIfZ val labelAfter) (\<lambda>_.
     seq (EmitStmt loop body) (\<lambda>_.
     GenLabel labelAfter))))))"
| "EmitStmt loop (WhileStmt test body) =
     seq NewLabel (\<lambda>labelBefore.
     seq NewLabel (\<lambda>labelAfter.
     seq (GenLabel labelBefore) (\<lambda>_.
     seq (Emit test) (\<lambda>h.
     seq (GetValue h) (\<lambda>val.
     seq (Assert (val \<noteq> None)) (\<lambda>_.
     seq (GenIfZ val labelAfter) (\<lambda>_.
     seq (EmitStmt (Some labelAfter) body) (\<lambda>_.
     seq (GenGoto labelBefore) (\<lambda>_.
     GenLabel labelAfter)))))))))"
| "EmitStmt loop (ForStmt init test step body) =
     seq NewLabel (\<lambda>labelBefore.
     seq NewLabel (\<lambda>labelAfter.
     seq (Emit init) (\<lambda>_.
     seq (GenLabel labelBefore) (\<lambda>_.
     seq (Emit test) (\<lambda>h.
     seq (GetValue h) (\<lambda>val.
     seq (Assert (val \<noteq> None)) (\<lambda>_.
     seq (GenIfZ val labelAfter) (\<lambda>_.
     seq (EmitStmt (Some labelAfter) body) (\<lambda>_.
     seq (Emit step) (\<lambda>_.
     seq (GenGoto labelBefore) (\<lambda>_.
     GenLabel labelAfter)))))))))))"
| "EmitStmt None BreakStmt = fail AssertFailed"
| "EmitStmt (Some labelAfter) BreakStmt = GenGoto labelAfter"
| "EmitStmt loop (ReturnStmt expr) =
     seq (Emit expr) (\<lambda>h.
     seq (GetValue h) (\<lambda>val.
     GenReturn val))"
| "EmitStmt loop (PrintStmt args) = EmitPrintArgs args"
| "EmitStmts loop [] = ret ()"
| "EmitStmts loop (stmt # rest) = seq (EmitStmt loop stmt) (\<lambda>_. EmitStmts loop rest)"

text \<open>
  \<^verbatim>\<open>FnDecl::Emit\<close>. Of the declaration it reads whether the parent is a class, the
  label, the formals and the body, which is null for a prototype.
\<close>

definition FnDecl_Emit ::
  "bool \<Rightarrow> string \<Rightarrow> (nat \<times> string) list \<Rightarrow> Stmt option \<Rightarrow> unit gen" where
  "FnDecl_Emit inClass lbl formals body =
     seq (GenLabel lbl) (\<lambda>_.
     seq GenBeginFunc (\<lambda>beginFunc.
     seq (if inClass then seq (GenParamVar ''this'') (\<lambda>_. ret ()) else ret ()) (\<lambda>_.
     seq (EmitFormals formals) (\<lambda>_.
     seq (case body of Some b \<Rightarrow> EmitStmt None b | None \<Rightarrow> ret ()) (\<lambda>_.
     seq GetFrameSize (\<lambda>frameSize.
     seq (SetFrameSize beginFunc frameSize) (\<lambda>_.
     GenEndFunc)))))))"

text \<open>
  The locations that \<^verbatim>\<open>GenTempVar\<close> and \<^verbatim>\<open>GenLocalVar\<close> create lie in the frame at
  or below \<^verbatim>\<open>OffsetToFirstLocal\<close>; those of \<^verbatim>\<open>GenParamVar\<close> and \<^verbatim>\<open>GenThis\<close> lie at
  or above \<^verbatim>\<open>OffsetToFirstParam\<close>, and those of \<^verbatim>\<open>GenGlobalVar\<close> in the other
  segment.
\<close>

definition is_local :: "Location \<Rightarrow> bool" where
  "is_local loc = (segment loc = fpRelative \<and> offset loc \<le> OffsetToFirstLocal)"

text \<open>The locals and temporaries created between two states, in the order of creation.\<close>

definition new_locals :: "CodeGenerator \<Rightarrow> CodeGenerator \<Rightarrow> Location list" where
  "new_locals s s' = filter is_local (drop (length (locations s)) (locations s'))"

text \<open>
  A later state of one function's lowering: the stream and the heap of locations have
  grown at the end, and the locals and temporaries created since have the offsets that
  the values of \<^verbatim>\<open>localCounter\<close> in between give.
\<close>

definition grows :: "CodeGenerator \<Rightarrow> CodeGenerator \<Rightarrow> bool" where
  "grows s s' =
     (take (length (code s)) (code s') = code s \<and> length (code s) \<le> length (code s') \<and>
      take (length (locations s)) (locations s') = locations s \<and>
      length (locations s) \<le> length (locations s') \<and>
      localCounter s \<le> localCounter s' \<and>
      map offset (new_locals s s') =
        map (\<lambda>k. OffsetToFirstLocal - VarSize * int k) [localCounter s..<localCounter s'])"

definition preserves :: "'a gen \<Rightarrow> bool" where
  "preserves m = (\<forall>s x s'. m s = Inr (x, s') \<longrightarrow> grows s s')"

text \<open>
  A block with a local \<open>x\<close> and the statement \<open>x = 1 + 2\<close>, as the body of a function
  \<open>main\<close>: the declaration of \<open>x\<close> is at the address 0.
\<close>

definition main_body :: Stmt where
  "main_body =
     StmtBlock [(0, ''x'')]
       [ExprStmt (AssignExpr (FieldAccess None (Some (VarRef 0 0)))
                    (ArithmeticExpr (Some (IntConstant 1)) ''+'' (IntConstant 2)))]"

text \<open>
  The state in a function after the declaration \<open>int[] a\<close> of a block, with the
  declaration at the address 0, and the assignment \<open>a[0] = 5\<close>.
\<close>

definition array_local :: CodeGenerator where
  "array_local =
     \<lparr>code = [], globalCounter = 0, paramCounter = 0, localCounter = 1,
      nextLabelNum = 0, nextTempNum = 0,
      locations = [\<lparr>variableName = ''a'', segment = fpRelative, offset = - 8, reg = None\<rparr>],
      valLocs = (\<lambda>decl. None)(0 := Some 0)\<rparr>"

definition array_assignment :: Expr where
  "array_assignment =
     AssignExpr (ArrayAccess (FieldAccess None (Some (VarRef 0 0))) (IntConstant 0))
       (IntConstant 5)"

definition array_assigned :: CodeGenerator where
  "array_assigned =
     \<lparr>code =
        [LoadConstant (Some 1) 0, Load (Some 2) (Some 0) (- 4), LoadConstant (Some 3) (- 1),
         BinaryOp ''<'' (Some 4) (Some 3) (Some 1), BinaryOp ''<'' (Some 5) (Some 1) (Some 2),
         BinaryOp ''&&'' (Some 6) (Some 4) (Some 5), IfZ (Some 6) ''_L0'',
         LoadConstant (Some 7) 4, BinaryOp ''*'' (Some 8) (Some 1) (Some 7),
         BinaryOp ''+'' (Some 9) (Some 0) (Some 8), Goto ''_L1'', Label ''_L0'',
         LoadStringConstant (Some 10) err_arr_out_of_bounds,
         PushParam (Some 10), LCall ''_PrintString'' None, PopParams 4,
         LCall ''_Halt'' None, Label ''_L1'', LoadConstant (Some 11) 5,
         Store (Some 9) (Some 11) 0],
      globalCounter = 0, paramCounter = 0, localCounter = 12,
      nextLabelNum = 2, nextTempNum = 11,
      locations =
        [\<lparr>variableName = ''a'', segment = fpRelative, offset = - 8, reg = None\<rparr>,
         \<lparr>variableName = ''_tmp0'', segment = fpRelative, offset = - 12, reg = None\<rparr>,
         \<lparr>variableName = ''_tmp1'', segment = fpRelative, offset = - 16, reg = None\<rparr>,
         \<lparr>variableName = ''_tmp2'', segment = fpRelative, offset = - 20, reg = None\<rparr>,
         \<lparr>variableName = ''_tmp3'', segment = fpRelative, offset = - 24, reg = None\<rparr>,
         \<lparr>variableName = ''_tmp4'', segment = fpRelative, offset = - 28, reg = None\<rparr>,
         \<lparr>variableName = ''_tmp5'', segment = fpRelative, offset = - 32, reg = None\<rparr>,
         \<lparr>variableName = ''_tmp6'', segment = fpRelative, offset = - 36, reg = None\<rparr>,
         \<lparr>variableName = ''_tmp7'', segment = fpRelative, offset = - 40, reg = None\<rparr>,
         \<lparr>variableName = ''_tmp8'', segment = fpRelative, offset = - 44, reg = None\<rparr>,
         \<lparr>variableName = ''_tmp9'', segment = fpRelative, offset = - 48, reg = None\<rparr>,
         \<lparr>variableName = ''_tmp10'', segment = fpRelative, offset = - 52, reg = None\<rparr>],
      valLocs = (\<lambda>decl. None)(0 := Some 0)\<rparr>"

text \<open>
  The call \<open>this.m(1, 2)\<close> of a method \<open>m\<close> at the vtable offset 4 that returns an
  \<open>int\<close>, and the state that its lowering reaches from a fresh code generator.
\<close>

definition this_call :: Expr where
  "this_call = Call (Some This) (Some (MethodFn 4 intType)) [IntConstant 1, IntConstant 2]"

definition this_called :: CodeGenerator where
  "this_called =
     \<lparr>code =
        [Load (Some 1) (Some 0) 0, Load (Some 2) (Some 1) 4, LoadConstant (Some 3) 1,
         LoadConstant (Some 4) 2, PushParam (Some 4), PushParam (Some 3), PushParam (Some 0),
         ACall (Some 2) (Some 5), PopParams 12],
      globalCounter = 0, paramCounter = 0, localCounter = 5,
      nextLabelNum = 0, nextTempNum = 5,
      locations =
        [\<lparr>variableName = ''this'', segment = fpRelative, offset = 4, reg = None\<rparr>,
         \<lparr>variableName = ''_tmp0'', segment = fpRelative, offset = - 8, reg = None\<rparr>,
         \<lparr>variableName = ''_tmp1'', segment = fpRelative, offset = - 12, reg = None\<rparr>,
         \<lparr>variableName = ''_tmp2'', segment = fpRelative, offset = - 16, reg = None\<rparr>,
         \<lparr>variableName = ''_tmp3'', segment = fpRelative, offset = - 20, reg = None\<rparr>,
         \<lparr>variableName = ''_tmp4'', segment = fpRelative, offset = - 24, reg = None\<rparr>],
      valLocs = (\<lambda>decl. None)\<rparr>"

section \<open>Per-instruction dataflow sets\<close>

text \<open>
  C1. The spec gives \<open>Return(v)\<close> the sets Kill = {} and Gen = {v}. The class
  \<^verbatim>\<open>Return\<close> overrides \<^verbatim>\<open>Kill\<close>, not \<^verbatim>\<open>Gen\<close>: the returned value is
  reported as killed and nothing is generated.
\<close>

theorem Return_Kill_Gen:
  "Kill (Return (Some v)) = {Some v} \<and> Gen (Return (Some v)) = {}"
  by simp

text \<open>
  C2. The spec gives \<open>Store\<close> the sets Kill = {} and Gen = {base, src}. The class
  \<^verbatim>\<open>Store\<close> reports its base address as killed and only the stored value as
  generated.
\<close>

theorem Store_Kill_Gen:
  "Kill (Store base src off) = {base} \<and> Gen (Store base src off) = {src}"
  by simp

section \<open>Successors built by the CFG builder\<close>











section \<open>The vtable of a hierarchy\<close>



lemma same_sig_SetOffset: "same_sig h (SetOffset fn off h)"
  unfolding same_sig_def SetOffset_def
proof
  fix x
  show "\<exists>off'. (h(fn := (h fn)\<lparr>fn_offset := off\<rparr>)) x = (h x)\<lparr>fn_offset := off'\<rparr>"
  proof (cases "x = fn")
    case True
    then show ?thesis by auto
  next
    case False
    have "h x = (h x)\<lparr>fn_offset := fn_offset (h x)\<rparr>" by simp
    with False show ?thesis by (metis fun_upd_other)
  qed
qed



lemma IsMatched_offset [simp]:
  "IsMatched (a\<lparr>fn_offset := x\<rparr>) b = IsMatched a b"
  "IsMatched a (b\<lparr>fn_offset := y\<rparr>) = IsMatched a b"
  by (simp_all add: IsMatched_def)

lemma same_sig_IsMatched: "same_sig h h' \<Longrightarrow> IsMatched (h' f) (h' m) = IsMatched (h f) (h m)"
  unfolding same_sig_def by (metis IsMatched_offset)







lemma override_none:
  "\<forall>m\<in>set ms. \<not> IsMatched (h f) (h m) \<Longrightarrow> override f ms h = (ms, h, False)"
  by (induction ms) auto




lemma SetOffset_same: "fn_offset (SetOffset fn off h fn) = off"
  by (simp add: SetOffset_def)


lemma member_append:
  assumes "\<forall>m\<in>set ms. \<not> IsMatched (h f) (h m)"
  shows "CollectFn_member f (ms, h) = (ms @ [f], SetOffset f (int (length ms) * VarSize) h)"
  using override_none[OF assms] by (simp add: CollectFn_member_def)














lemma override_table:
  "fst (override f ms h) = map (\<lambda>m. if IsMatched (h f) (h m) then f else m) ms"
proof (induction ms arbitrary: h)
  case Nil
  then show ?case by simp
next
  case (Cons m ms)
  show ?case
  proof (cases "IsMatched (h f) (h m)")
    case True
    let ?h1 = "SetOffset f (fn_offset (h m)) h"
    have "fst (override f ms ?h1) = map (\<lambda>m. if IsMatched (h f) (h m) then f else m) ms"
      using Cons.IH[of ?h1] same_sig_IsMatched[OF same_sig_SetOffset[of h f "fn_offset (h m)"]]
      by simp
    with True show ?thesis by (auto split: prod.splits)
  next
    case False
    with Cons.IH[of h] show ?thesis by (auto split: prod.splits)
  qed
qed




text \<open>
  C5, as the spec states it, fails on the code: \<open>C.f\<close> has the name of the inherited
  \<open>A.f\<close> and another signature; the planner leaves \<open>A.f\<close> in slot 0 and appends
  \<open>C.f\<close> as slot 2, at byte offset 8.
\<close>

theorem mismatch_is_appended:
  "fn_name (scenario_heap 3) = fn_name (scenario_heap 0)
   \<and> \<not> IsMatched (scenario_heap 3) (scenario_heap 0)
   \<and> fst (snd (CollectFn scenario_A scenario_heap)) = [0, 1]
   \<and> fst (snd (CollectFn scenario_C scenario_heap)) = [0, 1, 3]
   \<and> fn_offset (snd (snd (CollectFn scenario_C scenario_heap)) 3) = 8"
  by (simp add: scenario_A_def scenario_C_def scenario_heap_def CollectFn_member_def
      IsMatched_def SetOffset_def VarSize_def)

text \<open>
  C5, amended. When the method \<open>fn\<close> of a class that extends another has the name of
  the entry of slot \<open>i\<close> of the table built so far and does not match it, that entry
  keeps its slot; and when \<open>fn\<close> matches no entry of the table, it is appended as the
  new last slot, at byte offset \<open>length table * VarSize\<close>.
\<close>

theorem CollectFn_member_mismatch:
  assumes "i < length table"
    and "fn_name (h fn) = fn_name (h (table ! i))"
    and "\<not> IsMatched (h fn) (h (table ! i))"
    and "CollectFn_member fn (table, h) = (table', h')"
  shows "table' ! i = table ! i
    \<and> ((\<forall>m\<in>set table. \<not> IsMatched (h fn) (h m)) \<longrightarrow>
         table' = table @ [fn] \<and> fn_offset (h' fn) = int (length table) * VarSize)"
proof -
  obtain t1 h1 ov where o: "override fn table h = (t1, h1, ov)"
    by (cases "override fn table h") auto
  from override_table[of fn table h] o
  have t1: "t1 = map (\<lambda>m. if IsMatched (h fn) (h m) then fn else m) table" by simp
  with assms(1,3) have "t1 ! i = table ! i" "i < length t1" by simp_all
  with assms(4) o have "table' ! i = table ! i"
    by (auto simp: CollectFn_member_def nth_append split: if_splits)
  moreover have "table' = table @ [fn] \<and> fn_offset (h' fn) = int (length table) * VarSize"
    if "\<forall>m\<in>set table. \<not> IsMatched (h fn) (h m)"
    using member_append[OF that] assms(4) by (auto simp: SetOffset_same)
  ultimately show ?thesis by blast
qed

theorem CollectFn_member_mismatch_witness:
  "(0::nat) < length [0, 1::nat]
   \<and> fn_name (scenario_heap 3) = fn_name (scenario_heap ([0, 1] ! 0))
   \<and> \<not> IsMatched (scenario_heap 3) (scenario_heap ([0, 1] ! 0))
   \<and> CollectFn_member 3 ([0, 1], scenario_heap)
       = ([0, 1, 3], SetOffset 3 (2 * VarSize) scenario_heap)
   \<and> [0, 1, 3] ! 0 = [0, 1::nat] ! 0"
proof -
  have a: "(0::nat) < length [0, 1::nat]" by simp
  have b: "fn_name (scenario_heap 3) = fn_name (scenario_heap ([0, 1] ! 0))"
    by (simp add: scenario_heap_def)
  have c: "\<not> IsMatched (scenario_heap 3) (scenario_heap ([0, 1] ! 0))"
    by (simp add: scenario_heap_def IsMatched_def)
  have d: "CollectFn_member 3 ([0, 1], scenario_heap)
       = ([0, 1, 3], SetOffset 3 (2 * VarSize) scenario_heap)"
    by (simp add: scenario_heap_def CollectFn_member_def IsMatched_def)
  from CollectFn_member_mismatch[OF a b c d] a b c d show ?thesis by simp
qed

section \<open>Steps of the code generator\<close>

lemma seqE:
  assumes "seq m f s = Inr (y, s')"
  obtains x s1 where "m s = Inr (x, s1)" and "f x s1 = Inr (y, s')"
  using assms by (auto simp: seq_def split: sum.splits)

lemma seqI: "m s = Inr (x, s1) \<Longrightarrow> f x s1 = r \<Longrightarrow> seq m f s = r"
  by (simp add: seq_def)

lemma ret_Inr [simp]: "ret x s = Inr (y, s') \<longleftrightarrow> y = x \<and> s' = s"
  by (auto simp: ret_def)

lemma fail_Inr [simp]: "fail e s \<noteq> Inr r"
  by (simp add: fail_def)

lemma Assert_Inr [simp]: "Assert b s = Inr (u, s') \<longleftrightarrow> b \<and> s' = s"
  by (auto simp: Assert_def)

lemma Append_Inr [simp]: "Append i s = Inr (u, s') \<longleftrightarrow> s' = s\<lparr>code := code s @ [i]\<rparr>"
  by (auto simp: Append_def)

lemma decimal_digit: "n < 10 \<Longrightarrow> decimal n = [''0123456789'' ! n]"
  by (simp add: decimal.simps)

lemma GenTempVar_code: "GenTempVar s = Inr (r, s') \<Longrightarrow> code s' = code s"
  by (auto simp: GenTempVar_def new_Location_def split: if_splits)

lemma GenPopParams_code:
  "GenPopParams n s = Inr (u, s') \<Longrightarrow> code s' = code s @ (if n > 0 then [PopParams n] else [])"
  by (auto simp: GenPopParams_def elim!: seqE split: if_splits)

section \<open>Locations as dataflow keys\<close>

text \<open>
  C8, as the spec states it, fails on the code: two calls of \<^verbatim>\<open>GenThis\<close> in a fresh
  code generator create two objects of one segment and offset at the addresses 0 and
  1, and a \<^verbatim>\<open>LocationSet\<close> that holds both pointers has two elements.
\<close>

theorem two_this_two_keys:
  "seq GenThis (\<lambda>a. seq GenThis (\<lambda>b. ret (a, b))) CodeGenerator_init
     = Inr ((Some 0, Some 1),
            CodeGenerator_init\<lparr>locations :=
              [\<lparr>variableName = ''this'', segment = fpRelative, offset = OffsetToFirstParam,
                 reg = None\<rparr>,
               \<lparr>variableName = ''this'', segment = fpRelative, offset = OffsetToFirstParam,
                 reg = None\<rparr>]\<rparr>)
   \<and> card (Gen (PushParam (Some 0)) \<union> Gen (PushParam (Some 1))) = 2"
  by (simp add: seq_def GenThis_def new_Location_def CodeGenerator_init_def ret_def)

text \<open>
  C8, amended. The dataflow key of a Location is the address of its object. Two calls
  of \<^verbatim>\<open>GenThis\<close>, one after the other, return two different keys, although the two
  objects have the same segment and the same offset: a \<^verbatim>\<open>LocationSet\<close> that receives
  both, here the union of the \<^verbatim>\<open>Gen\<close> sets of two \<^verbatim>\<open>PushParam\<close>s, has two elements.
\<close>

theorem GenThis_distinct_keys:
  assumes "GenThis s = Inr (a, s1)" and "GenThis s1 = Inr (b, s2)"
  shows "a \<noteq> b
    \<and> (\<exists>i j. a = Some i \<and> b = Some j \<and> i < length (locations s2) \<and> j < length (locations s2)
         \<and> segment (locations s2 ! i) = segment (locations s2 ! j)
         \<and> offset (locations s2 ! i) = offset (locations s2 ! j))
    \<and> card (Gen (PushParam a) \<union> Gen (PushParam b)) = 2"
proof -
  let ?loc = "\<lparr>variableName = ''this'', segment = fpRelative, offset = OffsetToFirstParam,
                 reg = None\<rparr>"
  let ?n = "length (locations s)"
  from assms(1) have a: "a = Some ?n" and l1: "locations s1 = locations s @ [?loc]"
    by (auto simp: GenThis_def new_Location_def)
  from assms(2) l1 have b: "b = Some (Suc ?n)"
    and l2: "locations s2 = locations s @ [?loc, ?loc]"
    by (auto simp: GenThis_def new_Location_def)
  from l2 have n0: "locations s2 ! ?n = ?loc" by (simp add: nth_append)
  from l2 have n1: "locations s2 ! Suc ?n = ?loc" by (simp add: nth_append)
  from a b have ne: "a \<noteq> b" by simp
  then have "card (Gen (PushParam a) \<union> Gen (PushParam b)) = 2" by simp
  moreover have "\<exists>i j. a = Some i \<and> b = Some j \<and> i < length (locations s2) \<and> j < length (locations s2)
         \<and> segment (locations s2 ! i) = segment (locations s2 ! j)
         \<and> offset (locations s2 ! i) = offset (locations s2 ! j)"
    using a b l2 n0 n1 by (intro exI[of _ ?n] exI[of _ "Suc ?n"]) simp
  ultimately show ?thesis using ne by blast
qed

theorem GenThis_distinct_keys_witness:
  "GenThis CodeGenerator_init
     = Inr (Some 0, CodeGenerator_init\<lparr>locations :=
              [\<lparr>variableName = ''this'', segment = fpRelative, offset = OffsetToFirstParam,
                 reg = None\<rparr>]\<rparr>)
   \<and> GenThis (CodeGenerator_init\<lparr>locations :=
              [\<lparr>variableName = ''this'', segment = fpRelative, offset = OffsetToFirstParam,
                 reg = None\<rparr>]\<rparr>)
     = Inr (Some 1, CodeGenerator_init\<lparr>locations :=
              [\<lparr>variableName = ''this'', segment = fpRelative, offset = OffsetToFirstParam,
                 reg = None\<rparr>,
               \<lparr>variableName = ''this'', segment = fpRelative, offset = OffsetToFirstParam,
                 reg = None\<rparr>]\<rparr>)
   \<and> (Some 0 :: LocationP) \<noteq> Some 1
   \<and> card (Gen (PushParam (Some 0)) \<union> Gen (PushParam (Some 1))) = 2"
proof -
  let ?loc = "\<lparr>variableName = ''this'', segment = fpRelative, offset = OffsetToFirstParam,
                 reg = None\<rparr>"
  have a: "GenThis CodeGenerator_init = Inr (Some 0, CodeGenerator_init\<lparr>locations := [?loc]\<rparr>)"
    by (simp add: GenThis_def new_Location_def CodeGenerator_init_def)
  have b: "GenThis (CodeGenerator_init\<lparr>locations := [?loc]\<rparr>)
      = Inr (Some 1, CodeGenerator_init\<lparr>locations := [?loc, ?loc]\<rparr>)"
    by (simp add: GenThis_def new_Location_def CodeGenerator_init_def)
  from GenThis_distinct_keys[OF a b] a b show ?thesis by simp
qed

section \<open>Calls of the built-in routines\<close>

text \<open>
  C9, as the spec states it, fails on the code: the call of the built-in \<open>Halt\<close>,
  which takes no argument, emits the one instruction \<open>LCall _Halt\<close> and no
  \<open>PopParams\<close>.
\<close>

theorem Halt_without_PopParams:
  "GenBuiltInCall Halt None None CodeGenerator_init
     = Inr (None, CodeGenerator_init\<lparr>code := [LCall ''_Halt'' None]\<rparr>)"
  by (simp add: GenBuiltInCall_def Let_def seq_def Assert_def ret_def Append_def
      GenPopParams_def CodeGenerator_init_def VarSize_def)

text \<open>
  C9, amended. A call of a built-in that returns appends to the stream: the
  \<open>PushParam\<close> of the second argument, then that of the first, for as many arguments
  as the built-in takes; one \<open>LCall\<close> with the label of the table; and, when the
  built-in takes an argument, one \<open>PopParams\<close> of \<open>VarSize\<close> times the number of
  arguments. For a built-in without arguments nothing follows the \<open>LCall\<close>.
\<close>

theorem GenBuiltInCall_emits:
  assumes "GenBuiltInCall bn arg1 arg2 s = Inr (result, s')"
  shows "code s' = code s
      @ (if numArgs (builtins bn) = 2 then [PushParam arg2, PushParam arg1]
         else if numArgs (builtins bn) = 1 then [PushParam arg1] else [])
      @ [LCall (label (builtins bn)) result]
      @ (if numArgs (builtins bn) > 0 then [PopParams (VarSize * int (numArgs (builtins bn)))]
         else [])"
proof -
  let ?b = "builtins bn"
  from assms have "seq (if hasReturn ?b then GenTempVar else ret None) (\<lambda>result.
      seq (Assert ((numArgs ?b = 0 \<and> arg1 = None \<and> arg2 = None) \<or>
                   (numArgs ?b = 1 \<and> arg1 \<noteq> None \<and> arg2 = None) \<or>
                   (numArgs ?b = 2 \<and> arg1 \<noteq> None \<and> arg2 \<noteq> None))) (\<lambda>_.
      seq (if arg2 \<noteq> None then Append (PushParam arg2) else ret ()) (\<lambda>_.
      seq (if arg1 \<noteq> None then Append (PushParam arg1) else ret ()) (\<lambda>_.
      seq (Append (LCall (label ?b) result)) (\<lambda>_.
      seq (GenPopParams (VarSize * int (numArgs ?b))) (\<lambda>_.
      ret result)))))) s = Inr (result, s')"
    by (simp add: GenBuiltInCall_def Let_def)
  then obtain r s1 s2 s3 s4 s5 where
    t: "(if hasReturn ?b then GenTempVar else ret None) s = Inr (r, s1)"
    and a: "Assert ((numArgs ?b = 0 \<and> arg1 = None \<and> arg2 = None) \<or>
                   (numArgs ?b = 1 \<and> arg1 \<noteq> None \<and> arg2 = None) \<or>
                   (numArgs ?b = 2 \<and> arg1 \<noteq> None \<and> arg2 \<noteq> None)) s1 = Inr ((), s2)"
    and p2: "(if arg2 \<noteq> None then Append (PushParam arg2) else ret ()) s2 = Inr ((), s3)"
    and p1: "(if arg1 \<noteq> None then Append (PushParam arg1) else ret ()) s3 = Inr ((), s4)"
    and c: "Append (LCall (label ?b) r) s4 = Inr ((), s5)"
    and q: "GenPopParams (VarSize * int (numArgs ?b)) s5 = Inr ((), s')"
    and r: "r = result"
    by (elim seqE) auto
  from t have c1: "code s1 = code s"
    by (cases "hasReturn ?b") (auto dest: GenTempVar_code)
  from a have s2: "s2 = s1" and args: "(numArgs ?b = 0 \<and> arg1 = None \<and> arg2 = None) \<or>
                   (numArgs ?b = 1 \<and> arg1 \<noteq> None \<and> arg2 = None) \<or>
                   (numArgs ?b = 2 \<and> arg1 \<noteq> None \<and> arg2 \<noteq> None)" by simp_all
  from p2 have c3: "code s3 = code s2 @ (if arg2 \<noteq> None then [PushParam arg2] else [])"
    by (cases "arg2 = None") simp_all
  from p1 have c4: "code s4 = code s3 @ (if arg1 \<noteq> None then [PushParam arg1] else [])"
    by (cases "arg1 = None") simp_all
  from c r have c5: "code s5 = code s4 @ [LCall (label ?b) result]" by simp
  note c6 = GenPopParams_code[OF q]
  have pos: "(VarSize * int (numArgs ?b) > 0) = (numArgs ?b > 0)"
    by (simp add: VarSize_def)
  from args show ?thesis
    unfolding c6 c5 c4 c3 s2 c1 pos by auto
qed

theorem GenBuiltInCall_emits_witness:
  "GenBuiltInCall StringEqual (Some 0) (Some 1) two_strings
     = Inr (Some 2,
            two_strings\<lparr>code := code two_strings @
                [PushParam (Some 1), PushParam (Some 0), LCall ''_StringEqual'' (Some 2),
                 PopParams 8],
              localCounter := 3, nextTempNum := 3,
              locations := locations two_strings @
                [\<lparr>variableName = ''_tmp2'', segment = fpRelative, offset = - 16,
                   reg = None\<rparr>]\<rparr>)
   \<and> numArgs (builtins StringEqual) = 2
   \<and> VarSize * int (numArgs (builtins StringEqual)) = 8"
proof -
  have h: "GenBuiltInCall StringEqual (Some 0) (Some 1) two_strings
     = Inr (Some 2,
            two_strings\<lparr>code := code two_strings @
                [PushParam (Some 1), PushParam (Some 0), LCall ''_StringEqual'' (Some 2),
                 PopParams 8],
              localCounter := 3, nextTempNum := 3,
              locations := locations two_strings @
                [\<lparr>variableName = ''_tmp2'', segment = fpRelative, offset = - 16,
                   reg = None\<rparr>]\<rparr>)"
    by (simp add: GenBuiltInCall_def Let_def seq_def Assert_def ret_def Append_def
        GenPopParams_def GenTempVar_def new_Location_def two_strings_def VarSize_def
        OffsetToFirstLocal_def decimal_digit)
  from GenBuiltInCall_emits[OF h] h show ?thesis by (simp add: VarSize_def)
qed

section \<open>What every step of a function's lowering preserves\<close>

named_theorems preserves_intros

lemma prefix_take: "(take (length xs) ys = xs \<and> length xs \<le> length ys) \<longleftrightarrow> (\<exists>zs. ys = xs @ zs)"
proof
  assume a: "take (length xs) ys = xs \<and> length xs \<le> length ys"
  have "ys = take (length xs) ys @ drop (length xs) ys" by simp
  with a have "ys = xs @ drop (length xs) ys" by simp
  then show "\<exists>zs. ys = xs @ zs" ..
next
  assume "\<exists>zs. ys = xs @ zs"
  then show "take (length xs) ys = xs \<and> length xs \<le> length ys" by auto
qed

lemma grows_iff:
  "grows s s' \<longleftrightarrow>
     (\<exists>cs ls. code s' = code s @ cs \<and> locations s' = locations s @ ls \<and>
        localCounter s \<le> localCounter s' \<and>
        map offset (filter is_local ls) =
          map (\<lambda>k. OffsetToFirstLocal - VarSize * int k) [localCounter s..<localCounter s'])"
proof
  assume g: "grows s s'"
  then obtain cs ls where c: "code s' = code s @ cs" and l: "locations s' = locations s @ ls"
    unfolding grows_def using prefix_take[of "code s" "code s'"]
      prefix_take[of "locations s" "locations s'"] by auto
  from g l have "map offset (filter is_local ls) =
          map (\<lambda>k. OffsetToFirstLocal - VarSize * int k) [localCounter s..<localCounter s']"
    by (simp add: grows_def new_locals_def)
  with c l g show "\<exists>cs ls. code s' = code s @ cs \<and> locations s' = locations s @ ls \<and>
        localCounter s \<le> localCounter s' \<and>
        map offset (filter is_local ls) =
          map (\<lambda>k. OffsetToFirstLocal - VarSize * int k) [localCounter s..<localCounter s']"
    by (auto simp: grows_def)
next
  assume "\<exists>cs ls. code s' = code s @ cs \<and> locations s' = locations s @ ls \<and>
        localCounter s \<le> localCounter s' \<and>
        map offset (filter is_local ls) =
          map (\<lambda>k. OffsetToFirstLocal - VarSize * int k) [localCounter s..<localCounter s']"
  then show "grows s s'" by (auto simp: grows_def new_locals_def)
qed

lemma grows_refl: "grows s s"
  by (simp add: grows_def new_locals_def)

lemma grows_trans:
  assumes "grows s1 s2" and "grows s2 s3"
  shows "grows s1 s3"
proof -
  let ?f = "\<lambda>k. OffsetToFirstLocal - VarSize * int k"
  from assms(1) obtain c1 l1 where a: "code s2 = code s1 @ c1" "locations s2 = locations s1 @ l1"
    "localCounter s1 \<le> localCounter s2"
    "map offset (filter is_local l1) = map ?f [localCounter s1..<localCounter s2]"
    unfolding grows_iff by blast
  from assms(2) obtain c2 l2 where b: "code s3 = code s2 @ c2" "locations s3 = locations s2 @ l2"
    "localCounter s2 \<le> localCounter s3"
    "map offset (filter is_local l2) = map ?f [localCounter s2..<localCounter s3]"
    unfolding grows_iff by blast
  have "[localCounter s1..<localCounter s3]
      = [localCounter s1..<localCounter s2] @ [localCounter s2..<localCounter s3]"
    using a(3) b(3) upt_add_eq_append[of "localCounter s1" "localCounter s2"
        "localCounter s3 - localCounter s2"] by simp
  with a b have "code s3 = code s1 @ (c1 @ c2) \<and> locations s3 = locations s1 @ (l1 @ l2) \<and>
      localCounter s1 \<le> localCounter s3 \<and>
      map offset (filter is_local (l1 @ l2)) = map ?f [localCounter s1..<localCounter s3]"
    by simp
  then show ?thesis unfolding grows_iff by blast
qed

lemma preservesD: "preserves m \<Longrightarrow> m s = Inr (x, s') \<Longrightarrow> grows s s'"
  by (simp add: preserves_def)

lemma preserves_ret [preserves_intros]: "preserves (ret x)"
  by (auto simp: preserves_def ret_def grows_refl)

lemma preserves_fail [preserves_intros]: "preserves (fail e)"
  by (auto simp: preserves_def fail_def)

lemma preserves_seq [preserves_intros]:
  assumes "preserves m" and "\<And>x. preserves (f x)"
  shows "preserves (seq m f)"
  unfolding preserves_def
proof (intro allI impI)
  fix s y s' assume "seq m f s = Inr (y, s')"
  then obtain x s1 where "m s = Inr (x, s1)" and "f x s1 = Inr (y, s')" by (rule seqE)
  with assms show "grows s s'" by (blast intro: grows_trans preservesD)
qed

lemma preserves_if [preserves_intros]:
  "(b \<Longrightarrow> preserves m1) \<Longrightarrow> (\<not> b \<Longrightarrow> preserves m2) \<Longrightarrow> preserves (if b then m1 else m2)"
  by simp

lemma preserves_VarDecl_GetValue [preserves_intros]: "preserves (VarDecl_GetValue decl)"
  by (auto simp: preserves_def VarDecl_GetValue_def grows_refl)

lemma preserves_case_option [preserves_intros]:
  "preserves a \<Longrightarrow> (\<And>x. preserves (b x)) \<Longrightarrow> preserves (case v of None \<Rightarrow> a | Some x \<Rightarrow> b x)"
  by (cases v) simp_all

lemma preserves_Assert [preserves_intros]: "preserves (Assert b)"
  by (auto simp: preserves_def Assert_def ret_def fail_def grows_refl)

lemma preserves_Append [preserves_intros]: "preserves (Append inst)"
  by (auto simp: preserves_def Append_def grows_def new_locals_def)

lemma preserves_NewLabel [preserves_intros]: "preserves NewLabel"
  by (auto simp: preserves_def NewLabel_def grows_def new_locals_def split: if_splits)

lemma preserves_set_valLoc [preserves_intros]: "preserves (set_valLoc decl loc)"
  by (auto simp: preserves_def set_valLoc_def grows_def new_locals_def)

lemma preserves_GenTempVar [preserves_intros]: "preserves GenTempVar"
  by (auto simp: preserves_def GenTempVar_def new_Location_def grows_def new_locals_def
      is_local_def VarSize_def OffsetToFirstLocal_def split: if_splits)

lemma preserves_GenLocalVar [preserves_intros]: "preserves (GenLocalVar name)"
  by (auto simp: preserves_def GenLocalVar_def new_Location_def grows_def new_locals_def
      is_local_def VarSize_def OffsetToFirstLocal_def)

lemma preserves_GenParamVar [preserves_intros]: "preserves (GenParamVar name)"
  by (auto simp: preserves_def GenParamVar_def new_Location_def grows_def new_locals_def
      is_local_def VarSize_def OffsetToFirstLocal_def OffsetToFirstParam_def)

lemma preserves_GenThis [preserves_intros]: "preserves GenThis"
  by (auto simp: preserves_def GenThis_def new_Location_def grows_def new_locals_def
      is_local_def OffsetToFirstLocal_def OffsetToFirstParam_def)

lemma preserves_GenGlobalVar [preserves_intros]: "preserves (GenGlobalVar name)"
  by (auto simp: preserves_def GenGlobalVar_def new_Location_def grows_def new_locals_def
      is_local_def)

lemma preserves_GenLoadConstant [preserves_intros]: "preserves (GenLoadConstant v)"
  unfolding GenLoadConstant_def by (intro preserves_intros)

lemma preserves_GenLoadStringConstant [preserves_intros]: "preserves (GenLoadStringConstant str)"
  unfolding GenLoadStringConstant_def by (intro preserves_intros)

lemma preserves_GenLoadLabel [preserves_intros]: "preserves (GenLoadLabel lbl)"
  unfolding GenLoadLabel_def by (intro preserves_intros)

lemma preserves_GenAssign [preserves_intros]: "preserves (GenAssign dst src)"
  unfolding GenAssign_def by (intro preserves_intros)

lemma preserves_GenLoad [preserves_intros]: "preserves (GenLoad ref off)"
  unfolding GenLoad_def by (intro preserves_intros)

lemma preserves_GenStore [preserves_intros]: "preserves (GenStore dst src off)"
  unfolding GenStore_def by (intro preserves_intros)

lemma preserves_GenBinaryOp [preserves_intros]: "preserves (GenBinaryOp opName op1 op2)"
  unfolding GenBinaryOp_def by (intro preserves_intros)

lemma preserves_GenLabel [preserves_intros]: "preserves (GenLabel lbl)"
  unfolding GenLabel_def by (intro preserves_intros)

lemma preserves_GenIfZ [preserves_intros]: "preserves (GenIfZ test lbl)"
  unfolding GenIfZ_def by (intro preserves_intros)

lemma preserves_GenGoto [preserves_intros]: "preserves (GenGoto lbl)"
  unfolding GenGoto_def by (intro preserves_intros)

lemma preserves_GenReturn [preserves_intros]: "preserves (GenReturn val)"
  unfolding GenReturn_def by (intro preserves_intros)

lemma preserves_GenPushParam [preserves_intros]: "preserves (GenPushParam param)"
  unfolding GenPushParam_def by (intro preserves_intros)

lemma preserves_GenPopParams [preserves_intros]: "preserves (GenPopParams n)"
  unfolding GenPopParams_def by (intro preserves_intros)

lemma preserves_GenLCall [preserves_intros]: "preserves (GenLCall lbl r)"
  unfolding GenLCall_def by (intro preserves_intros)

lemma preserves_GenACall [preserves_intros]: "preserves (GenACall addr r)"
  unfolding GenACall_def by (intro preserves_intros)

lemma preserves_GenBuiltInCall [preserves_intros]: "preserves (GenBuiltInCall bn arg1 arg2)"
  unfolding GenBuiltInCall_def Let_def by (intro preserves_intros)

lemma preserves_GetValue [preserves_intros]: "preserves (GetValue h)"
  by (induction h rule: GetValue.induct) (simp_all, (intro preserves_intros)+)

lemma preserves_LValue_Assign [preserves_intros]: "preserves (LValue_Assign h src)"
  by (induction h src rule: LValue_Assign.induct) (simp_all, (intro preserves_intros)+)

lemma preserves_PushParams [preserves_intros]: "preserves (PushParams params)"
  by (induction params) (simp_all, (intro preserves_intros | assumption)+)

lemma preserves_Emit: "preserves (Emit e)"
  and preserves_EmitActuals: "preserves (EmitActuals actuals params)"
  by (induction e and actuals params rule: Emit_EmitActuals.induct)
    (simp_all only: Emit.simps EmitActuals.simps, (intro preserves_intros | assumption | blast)+)

section \<open>Frame offsets of locals and temporaries\<close>

lemma preserves_VarDecl_Emit_formal [preserves_intros]: "preserves (VarDecl_Emit_formal var)"
  unfolding VarDecl_Emit_formal_def by (intro preserves_intros)

lemma preserves_VarDecl_Emit_local [preserves_intros]: "preserves (VarDecl_Emit_local var)"
  unfolding VarDecl_Emit_local_def by (intro preserves_intros)

lemma preserves_EmitFormals [preserves_intros]: "preserves (EmitFormals formals)"
  by (induction formals) (simp_all only: EmitFormals.simps, (intro preserves_intros | assumption)+)

lemma preserves_EmitLocals [preserves_intros]: "preserves (EmitLocals decls)"
  by (induction decls) (simp_all only: EmitLocals.simps, (intro preserves_intros | assumption)+)

lemma preserves_EmitPrintArgs [preserves_intros]: "preserves (EmitPrintArgs args)"
  by (induction args rule: EmitPrintArgs.induct)
    (simp_all only: EmitPrintArgs.simps, (intro preserves_intros preserves_Emit | assumption)+)

lemma preserves_EmitStmt: "preserves (EmitStmt loop stmt)"
  and preserves_EmitStmts: "preserves (EmitStmts loop stmts)"
  by (induction loop stmt and loop stmts rule: EmitStmt_EmitStmts.induct)
    (simp_all only: EmitStmt.simps EmitStmts.simps,
      (intro preserves_intros preserves_Emit | assumption | blast)+)

lemma GenTempVar_local:
  assumes "GenTempVar s = Inr (p, s')"
  shows "\<exists>i. p = Some i \<and> locations s' = locations s @ [locations s' ! i]
           \<and> is_local (locations s' ! i)
           \<and> offset (locations s' ! i) = OffsetToFirstLocal - VarSize * int (localCounter s)
           \<and> localCounter s' = Suc (localCounter s)"
  using assms
  by (auto simp: GenTempVar_def new_Location_def is_local_def VarSize_def split: if_splits)

lemma GenLocalVar_local:
  assumes "GenLocalVar name s = Inr (p, s')"
  shows "\<exists>i. p = Some i \<and> locations s' = locations s @ [locations s' ! i]
           \<and> is_local (locations s' ! i)
           \<and> offset (locations s' ! i) = OffsetToFirstLocal - VarSize * int (localCounter s)
           \<and> localCounter s' = Suc (localCounter s)"
  using assms
  by (auto simp: GenLocalVar_def new_Location_def is_local_def VarSize_def)

lemma GenParamVar_not_local:
  assumes "GenParamVar name s = Inr (p, s')"
  shows "\<exists>i. p = Some i \<and> locations s' = locations s @ [locations s' ! i]
           \<and> \<not> is_local (locations s' ! i) \<and> localCounter s' = localCounter s"
  using assms
  by (auto simp: GenParamVar_def new_Location_def is_local_def VarSize_def
      OffsetToFirstLocal_def OffsetToFirstParam_def)

lemma GenThis_not_local:
  assumes "GenThis s = Inr (p, s')"
  shows "\<exists>i. p = Some i \<and> locations s' = locations s @ [locations s' ! i]
           \<and> \<not> is_local (locations s' ! i) \<and> localCounter s' = localCounter s"
  using assms
  by (auto simp: GenThis_def new_Location_def is_local_def
      OffsetToFirstLocal_def OffsetToFirstParam_def)

lemma GenGlobalVar_not_local:
  assumes "GenGlobalVar name s = Inr (p, s')"
  shows "\<exists>i. p = Some i \<and> locations s' = locations s @ [locations s' ! i]
           \<and> \<not> is_local (locations s' ! i) \<and> localCounter s' = localCounter s"
  using assms
  by (auto simp: GenGlobalVar_def new_Location_def is_local_def)

text \<open>
  C10. In the lowering of one function, entered with \<^verbatim>\<open>localCounter\<close> at 0, as
  the constructor and every \<^verbatim>\<open>GenEndFunc\<close> leave it, the locals and temporaries
  that \<^verbatim>\<open>GenLocalVar\<close> and \<^verbatim>\<open>GenTempVar\<close> create are, in the order of creation,
  at the offsets \<open>OffsetToFirstLocal - VarSize * k\<close> for \<open>k = 0, 1, ...\<close>, which are
  distinct; the \<open>BeginFunc\<close> of the function, the second instruction that the function
  emits, holds the frame size \<open>VarSize\<close> times their number; and the counter is 0 again
  at the end.
\<close>

theorem FnDecl_Emit_frame:
  assumes e: "FnDecl_Emit inClass lbl formals body s = Inr (u, s')"
    and z: "localCounter s = 0"
  shows "map offset (new_locals s s')
           = map (\<lambda>k. OffsetToFirstLocal - VarSize * int k) [0..<length (new_locals s s')]
    \<and> distinct (map offset (new_locals s s'))
    \<and> code s' ! Suc (length (code s))
         = BeginFunc (Some (VarSize * int (length (new_locals s s'))))
    \<and> localCounter s' = 0"
proof -
  let ?f = "\<lambda>k. OffsetToFirstLocal - VarSize * int k"
  from e have "seq (GenLabel lbl) (\<lambda>_.
     seq GenBeginFunc (\<lambda>beginFunc.
     seq (if inClass then seq (GenParamVar ''this'') (\<lambda>_. ret ()) else ret ()) (\<lambda>_.
     seq (EmitFormals formals) (\<lambda>_.
     seq (case body of Some b \<Rightarrow> EmitStmt None b | None \<Rightarrow> ret ()) (\<lambda>_.
     seq GetFrameSize (\<lambda>frameSize.
     seq (SetFrameSize beginFunc frameSize) (\<lambda>_.
     GenEndFunc))))))) s = Inr (u, s')"
    by (simp add: FnDecl_Emit_def)
  then obtain x1 s1 where l: "GenLabel lbl s = Inr (x1, s1)"
    and e1: "seq GenBeginFunc (\<lambda>beginFunc.
     seq (if inClass then seq (GenParamVar ''this'') (\<lambda>_. ret ()) else ret ()) (\<lambda>_.
     seq (EmitFormals formals) (\<lambda>_.
     seq (case body of Some b \<Rightarrow> EmitStmt None b | None \<Rightarrow> ret ()) (\<lambda>_.
     seq GetFrameSize (\<lambda>frameSize.
     seq (SetFrameSize beginFunc frameSize) (\<lambda>_.
     GenEndFunc)))))) s1 = Inr (u, s')"
    by (rule seqE)
  from e1 obtain beginFunc s2 where b: "GenBeginFunc s1 = Inr (beginFunc, s2)"
    and e2: "seq (if inClass then seq (GenParamVar ''this'') (\<lambda>_. ret ()) else ret ()) (\<lambda>_.
     seq (EmitFormals formals) (\<lambda>_.
     seq (case body of Some b \<Rightarrow> EmitStmt None b | None \<Rightarrow> ret ()) (\<lambda>_.
     seq GetFrameSize (\<lambda>frameSize.
     seq (SetFrameSize beginFunc frameSize) (\<lambda>_.
     GenEndFunc))))) s2 = Inr (u, s')"
    by (rule seqE)
  from e2 obtain x3 s3 where
    t: "(if inClass then seq (GenParamVar ''this'') (\<lambda>_. ret ()) else ret ()) s2 = Inr (x3, s3)"
    and e3: "seq (EmitFormals formals) (\<lambda>_.
     seq (case body of Some b \<Rightarrow> EmitStmt None b | None \<Rightarrow> ret ()) (\<lambda>_.
     seq GetFrameSize (\<lambda>frameSize.
     seq (SetFrameSize beginFunc frameSize) (\<lambda>_.
     GenEndFunc)))) s3 = Inr (u, s')"
    by (rule seqE)
  from e3 obtain x4 s4 where f: "EmitFormals formals s3 = Inr (x4, s4)"
    and e4: "seq (case body of Some b \<Rightarrow> EmitStmt None b | None \<Rightarrow> ret ()) (\<lambda>_.
     seq GetFrameSize (\<lambda>frameSize.
     seq (SetFrameSize beginFunc frameSize) (\<lambda>_.
     GenEndFunc))) s4 = Inr (u, s')"
    by (rule seqE)
  from e4 obtain x5 s5 where
    bd: "(case body of Some b \<Rightarrow> EmitStmt None b | None \<Rightarrow> ret ()) s4 = Inr (x5, s5)"
    and r: "seq GetFrameSize (\<lambda>frameSize.
             seq (SetFrameSize beginFunc frameSize) (\<lambda>_. GenEndFunc)) s5 = Inr (u, s')"
    by (rule seqE)
  have gl: "grows s s1" using l preserves_GenLabel by (rule preservesD[rotated])
  have "preserves GenBeginFunc"
    by (auto simp: preserves_def GenBeginFunc_def grows_def new_locals_def)
  then have gb: "grows s1 s2" using b by (rule preservesD)
  from l b have bf: "beginFunc = Suc (length (code s))"
    by (auto simp: GenLabel_def Append_def GenBeginFunc_def)
  from l b have c2: "code s2 = code s @ [Label lbl, BeginFunc None]"
    by (auto simp: GenLabel_def Append_def GenBeginFunc_def)
  have g2: "grows s2 s5"
  proof -
    have "preserves (seq (if inClass then seq (GenParamVar ''this'') (\<lambda>_. ret ()) else ret ()) (\<lambda>_.
        seq (EmitFormals formals) (\<lambda>_.
        case body of Some b \<Rightarrow> EmitStmt None b | None \<Rightarrow> ret ())))"
      by (intro preserves_intros preserves_EmitStmt)
    moreover have "seq (if inClass then seq (GenParamVar ''this'') (\<lambda>_. ret ()) else ret ()) (\<lambda>_.
        seq (EmitFormals formals) (\<lambda>_.
        case body of Some b \<Rightarrow> EmitStmt None b | None \<Rightarrow> ret ())) s2 = Inr (x5, s5)"
      by (simp add: seq_def t f bd)
    ultimately show ?thesis by (rule preservesD)
  qed
  from g2 c2 have len5: "Suc (length (code s)) < length (code s5)"
    by (auto simp: grows_iff)
  from r have s': "s' = s5\<lparr>code := (code s5)[beginFunc := BeginFunc (Some (VarSize * int (localCounter s5)))]
                             @ [EndFunc], localCounter := 0, paramCounter := 0\<rparr>"
    by (auto simp: GetFrameSize_def SetFrameSize_def GenEndFunc_def elim!: seqE)
  then have loc: "locations s' = locations s5" and lc: "localCounter s' = 0" by simp_all
  from loc have nl: "new_locals s s' = new_locals s s5" by (simp add: new_locals_def)
  from gl gb g2 have g: "grows s s5" by (blast intro: grows_trans)
  from g z have m: "map offset (new_locals s s5) = map ?f [0..<localCounter s5]"
    by (simp add: grows_def)
  then have "length (new_locals s s5) = localCounter s5"
    by (metis diff_zero length_map length_upt)
  with nl have n: "length (new_locals s s') = localCounter s5" by simp
  have inj: "inj_on ?f A" for A by (auto simp: inj_on_def VarSize_def)
  from m nl n have a: "map offset (new_locals s s') = map ?f [0..<length (new_locals s s')]"
    by simp
  have d: "distinct (map offset (new_locals s s'))"
    unfolding a using inj by (simp add: distinct_map)
  from s' bf len5 n have c: "code s' ! Suc (length (code s))
         = BeginFunc (Some (VarSize * int (length (new_locals s s'))))"
    by (simp add: nth_append)
  from a d c lc show ?thesis by blast
qed


lemmas gen_eval =
  seq_def ret_def fail_def Assert_def Append_def new_Location_def NewLabel_def
  GenTempVar_def GenLocalVar_def GenGlobalVar_def GenParamVar_def GenThis_def
  GenLoadConstant_def GenLoadStringConstant_def GenLoadLabel_def GenAssign_def GenLoad_def
  GenStore_def GenBinaryOp_def GenLabel_def GenIfZ_def GenGoto_def GenReturn_def
  GenBeginFunc_def SetFrameSize_def GetFrameSize_def GenEndFunc_def GenPushParam_def
  GenPopParams_def GenLCall_def GenACall_def GenBuiltInCall_def Let_def GenVTable_def
  VarDecl_GetValue_def set_valLoc_def VarDecl_Emit_formal_def VarDecl_Emit_local_def
  VarDecl_Emit_global_def FnDecl_Emit_def CodeGenerator_init_def
  VarSize_def OffsetToFirstLocal_def OffsetToFirstParam_def OffsetToFirstGlobal_def
  decimal_digit

theorem FnDecl_Emit_frame_witness:
  "FnDecl_Emit False ''main'' [] (Some main_body) CodeGenerator_init
     = Inr ((),
        \<lparr>code = [Label ''main'', BeginFunc (Some 16), LoadConstant (Some 1) 2,
                 LoadConstant (Some 2) 1, BinaryOp ''+'' (Some 3) (Some 2) (Some 1),
                 Assign (Some 0) (Some 3), EndFunc],
         globalCounter = 0, paramCounter = 0, localCounter = 0,
         nextLabelNum = 0, nextTempNum = 3,
         locations =
           [\<lparr>variableName = ''x'', segment = fpRelative, offset = - 8, reg = None\<rparr>,
            \<lparr>variableName = ''_tmp0'', segment = fpRelative, offset = - 12, reg = None\<rparr>,
            \<lparr>variableName = ''_tmp1'', segment = fpRelative, offset = - 16, reg = None\<rparr>,
            \<lparr>variableName = ''_tmp2'', segment = fpRelative, offset = - 20, reg = None\<rparr>],
         valLocs = (\<lambda>decl. None)(0 := Some 0)\<rparr>)
   \<and> localCounter CodeGenerator_init = 0
   \<and> OffsetToFirstLocal - VarSize * 3 = - 20
   \<and> VarSize * 4 = 16"
proof -
  let ?s = "\<lparr>code = [Label ''main'', BeginFunc (Some 16), LoadConstant (Some 1) 2,
                 LoadConstant (Some 2) 1, BinaryOp ''+'' (Some 3) (Some 2) (Some 1),
                 Assign (Some 0) (Some 3), EndFunc],
         globalCounter = 0, paramCounter = 0, localCounter = 0,
         nextLabelNum = 0, nextTempNum = 3,
         locations =
           [\<lparr>variableName = ''x'', segment = fpRelative, offset = - 8, reg = None\<rparr>,
            \<lparr>variableName = ''_tmp0'', segment = fpRelative, offset = - 12, reg = None\<rparr>,
            \<lparr>variableName = ''_tmp1'', segment = fpRelative, offset = - 16, reg = None\<rparr>,
            \<lparr>variableName = ''_tmp2'', segment = fpRelative, offset = - 20, reg = None\<rparr>],
         valLocs = (\<lambda>decl. None)(0 := Some 0)\<rparr>"
  have h: "FnDecl_Emit False ''main'' [] (Some main_body) CodeGenerator_init = Inr ((), ?s)"
    by (simp add: main_body_def gen_eval)
  have z: "localCounter CodeGenerator_init = 0" by (simp add: CodeGenerator_init_def)
  from FnDecl_Emit_frame[OF h z] h z show ?thesis
    by (simp add: VarSize_def OffsetToFirstLocal_def)
qed

section \<open>Method calls and assignments\<close>

lemma decimal_tens:
  "10 \<le> n \<Longrightarrow> decimal n = decimal (n div 10) @ [''0123456789'' ! (n mod 10)]"
  by (subst decimal.simps) simp

lemma seq_Inr_iff:
  "seq m f s = Inr (y, s') \<longleftrightarrow> (\<exists>x s1. m s = Inr (x, s1) \<and> f x s1 = Inr (y, s'))"
  by (auto simp: seq_def split: sum.splits)

lemma Emit_code:
  assumes "Emit e s = Inr (h, s')"
  obtains cs where "code s' = code s @ cs"
  using preservesD[OF preserves_Emit assms] unfolding grows_iff by blast

lemma GetValue_code:
  assumes "GetValue h s = Inr (v, s')"
  shows "code s' = code s @ (case h of LV None addr off \<Rightarrow> [Load v addr off] | _ \<Rightarrow> [])"
proof (cases h)
  case (Plain p)
  with assms show ?thesis by simp
next
  case (LV valLoc addr off)
  show ?thesis
  proof (cases valLoc)
    case None
    with LV assms show ?thesis
      by (auto simp: GenLoad_def seq_Inr_iff dest: GenTempVar_code)
  next
    case (Some l)
    with LV assms show ?thesis by simp
  qed
qed

lemma EmitActuals_EvalActuals:
  "EmitActuals actuals params s = Inr (ps, s') \<longleftrightarrow>
     (\<exists>vals. EvalActuals actuals s = Inr (vals, s') \<and> ps = rev vals @ params)"
proof (induction actuals arbitrary: params s)
  case Nil
  show ?case by (simp only: EmitActuals.simps EvalActuals.simps ret_Inr) auto
next
  case (Cons actual rest)
  show ?case
  proof
    assume "EmitActuals (actual # rest) params s = Inr (ps, s')"
    then obtain h s1 where e: "Emit actual s = Inr (h, s1)"
      and e1: "seq (GetValue h) (\<lambda>param. EmitActuals rest (param # params)) s1 = Inr (ps, s')"
      unfolding EmitActuals.simps by (rule seqE)
    from e1 obtain param s2 where g: "GetValue h s1 = Inr (param, s2)"
      and r: "EmitActuals rest (param # params) s2 = Inr (ps, s')"
      by (rule seqE)
    from r obtain vals where v: "EvalActuals rest s2 = Inr (vals, s')"
      and p: "ps = rev vals @ param # params"
      unfolding Cons.IH by blast
    have "EvalActuals (actual # rest) s = Inr (param # vals, s')"
      by (simp add: seq_def e g v ret_def)
    moreover from p have "ps = rev (param # vals) @ params" by simp
    ultimately show "\<exists>vals. EvalActuals (actual # rest) s = Inr (vals, s') \<and> ps = rev vals @ params"
      by blast
  next
    assume "\<exists>vals. EvalActuals (actual # rest) s = Inr (vals, s') \<and> ps = rev vals @ params"
    then obtain vals where ev: "EvalActuals (actual # rest) s = Inr (vals, s')"
      and p: "ps = rev vals @ params" by blast
    from ev obtain h s1 where e: "Emit actual s = Inr (h, s1)"
      and e1: "seq (GetValue h) (\<lambda>param.
                 seq (EvalActuals rest) (\<lambda>params. ret (param # params))) s1 = Inr (vals, s')"
      unfolding EvalActuals.simps by (rule seqE)
    from e1 obtain param s2 where g: "GetValue h s1 = Inr (param, s2)"
      and e2: "seq (EvalActuals rest) (\<lambda>params. ret (param # params)) s2 = Inr (vals, s')"
      by (rule seqE)
    from e2 obtain vs s3 where v: "EvalActuals rest s2 = Inr (vs, s3)"
      and r: "ret (param # vs) s3 = Inr (vals, s')"
      by (rule seqE)
    from r have vals: "vals = param # vs" and s3: "s3 = s'" by simp_all
    from v s3 p vals have "EmitActuals rest (param # params) s2 = Inr (ps, s')"
      unfolding Cons.IH by simp
    then show "EmitActuals (actual # rest) params s = Inr (ps, s')"
      by (simp add: seq_def e g)
  qed
qed

lemma EvalActuals_length:
  "EvalActuals actuals s = Inr (vals, s') \<Longrightarrow> length vals = length actuals"
proof (induction actuals arbitrary: vals s s')
  case Nil
  then show ?case by simp
next
  case (Cons actual rest)
  from Cons.prems obtain h s1 where e: "Emit actual s = Inr (h, s1)"
    and e1: "seq (GetValue h) (\<lambda>param.
               seq (EvalActuals rest) (\<lambda>params. ret (param # params))) s1 = Inr (vals, s')"
    unfolding EvalActuals.simps by (rule seqE)
  from e1 obtain param s2 where g: "GetValue h s1 = Inr (param, s2)"
    and e2: "seq (EvalActuals rest) (\<lambda>params. ret (param # params)) s2 = Inr (vals, s')"
    by (rule seqE)
  from e2 obtain vs s3 where v: "EvalActuals rest s2 = Inr (vs, s3)"
    and r: "ret (param # vs) s3 = Inr (vals, s')"
    by (rule seqE)
  from r Cons.IH[OF v] show ?case by simp
qed

lemma PushParams_code:
  "PushParams params s = Inr (u, s') \<Longrightarrow> code s' = code s @ map PushParam params"
proof (induction params arbitrary: s)
  case Nil
  then show ?case by simp
next
  case (Cons p params)
  from Cons.prems obtain u1 s1 where a: "GenPushParam p s = Inr (u1, s1)"
    and b: "PushParams params s1 = Inr (u, s')"
    unfolding PushParams.simps by (rule seqE)
  from a have "code s1 = code s @ [PushParam p]" by (simp add: GenPushParam_def)
  with Cons.IH[OF b] show ?case by simp
qed

lemma GenACall_code:
  assumes "GenACall addr hr s = Inr (r, s')"
  shows "code s' = code s @ [ACall addr r]"
proof -
  from assms obtain r1 s1 where a: "(if hr then GenTempVar else ret None) s = Inr (r1, s1)"
    and b: "seq (Append (ACall addr r1)) (\<lambda>_. ret r1) s1 = Inr (r, s')"
    unfolding GenACall_def by (rule seqE)
  from a have "code s1 = code s" by (cases hr) (auto dest: GenTempVar_code)
  moreover from b have "r = r1" "code s' = code s1 @ [ACall addr r1]"
    by (auto elim!: seqE)
  ultimately show ?thesis by simp
qed

lemma method_call_tail:
  assumes "seq (EmitActuals actuals [object]) (\<lambda>params.
     seq (PushParams params) (\<lambda>_.
     seq (GenACall addr hr) (\<lambda>r.
     seq (GenPopParams (int (length params) * VarSize)) (\<lambda>_.
     ret (Plain r))))) s1 = Inr (h, s')"
  shows "\<exists>vals s2 dst. EvalActuals actuals s1 = Inr (vals, s2)
    \<and> length vals = length actuals
    \<and> code s' = code s2 @ map PushParam (rev vals)
        @ [PushParam object, ACall addr dst,
           PopParams (int (length actuals + 1) * VarSize)]
    \<and> h = Plain dst"
proof -
  from assms obtain params s2 where ea: "EmitActuals actuals [object] s1 = Inr (params, s2)"
    and e1: "seq (PushParams params) (\<lambda>_.
     seq (GenACall addr hr) (\<lambda>r.
     seq (GenPopParams (int (length params) * VarSize)) (\<lambda>_.
     ret (Plain r)))) s2 = Inr (h, s')"
    by (rule seqE)
  from e1 obtain u3 s3 where pp: "PushParams params s2 = Inr (u3, s3)"
    and e2: "seq (GenACall addr hr) (\<lambda>r.
     seq (GenPopParams (int (length params) * VarSize)) (\<lambda>_.
     ret (Plain r))) s3 = Inr (h, s')"
    by (rule seqE)
  from e2 obtain dst s4 where ac: "GenACall addr hr s3 = Inr (dst, s4)"
    and e3: "seq (GenPopParams (int (length params) * VarSize)) (\<lambda>_.
     ret (Plain dst)) s4 = Inr (h, s')"
    by (rule seqE)
  from e3 obtain u5 where pop: "GenPopParams (int (length params) * VarSize) s4 = Inr (u5, s')"
    and h: "h = Plain dst"
    by (auto simp: seq_Inr_iff)
  from ea obtain vals where ev: "EvalActuals actuals s1 = Inr (vals, s2)"
    and ps: "params = rev vals @ [object]"
    unfolding EmitActuals_EvalActuals by blast
  note len = EvalActuals_length[OF ev]
  from ps len have lp: "int (length params) * VarSize = int (length actuals + 1) * VarSize"
    by simp
  have pos: "int (length actuals + 1) * VarSize > 0" by (simp add: VarSize_def)
  from GenPopParams_code[OF pop] lp pos
  have c4: "code s' = code s4 @ [PopParams (int (length actuals + 1) * VarSize)]" by simp
  from PushParams_code[OF pp] ps
  have c3: "code s3 = code s2 @ map PushParam (rev vals) @ [PushParam object]" by simp
  from GenACall_code[OF ac] have c5: "code s4 = code s3 @ [ACall addr dst]" .
  from c3 c4 c5 have "code s' = code s2 @ map PushParam (rev vals)
        @ [PushParam object, ACall addr dst,
           PopParams (int (length actuals + 1) * VarSize)]" by simp
  with ev len h show ?thesis by blast
qed

lemma method_call_loads:
  assumes "seq (GenLoad object 0) (\<lambda>vtable. seq (GenLoad vtable off) T) s0 = Inr (h, s')"
  obtains addr s1 where "seq (GenLoad object 0) (\<lambda>vtable. GenLoad vtable off) s0 = Inr (addr, s1)"
    and "T addr s1 = Inr (h, s')"
proof -
  from assms obtain vtable sv where a: "GenLoad object 0 s0 = Inr (vtable, sv)"
    and e1: "seq (GenLoad vtable off) T sv = Inr (h, s')"
    by (rule seqE)
  from e1 obtain addr s1 where b: "GenLoad vtable off sv = Inr (addr, s1)"
    and t: "T addr s1 = Inr (h, s')"
    by (rule seqE)
  have "seq (GenLoad object 0) (\<lambda>vtable. GenLoad vtable off) s0 = Inr (addr, s1)"
    by (simp add: seq_def a b)
  with t that show ?thesis by blast
qed

text \<open>
  C3. When the lowering of a method call with the actuals \<open>actuals\<close> returns, it has
  first lowered the receiver (the base, or \<^verbatim>\<open>GenThis\<close> without one) to \<open>object\<close> and
  loaded the method address \<open>addr\<close> through the vtable; then evaluated the actuals
  from left to right to \<open>vals\<close>, one value per actual; and then appended, in this
  order: the \<open>PushParam\<close>s of the values in reverse argument order, the \<open>PushParam\<close>
  of the receiver, one \<open>ACall\<close>, and one \<open>PopParams\<close> of \<open>(k + 1) * VarSize\<close> bytes
  for \<open>k\<close> actuals.
\<close>

theorem method_call_convention:
  assumes "Emit (Call base (Some (MethodFn off rt)) actuals) s = Inr (h, s')"
  shows "\<exists>object s0 addr s1 vals s2 dst.
      (case base of Some b \<Rightarrow> seq (Emit b) GetValue | None \<Rightarrow> GenThis) s = Inr (object, s0)
    \<and> seq (GenLoad object 0) (\<lambda>vtable. GenLoad vtable off) s0 = Inr (addr, s1)
    \<and> EvalActuals actuals s1 = Inr (vals, s2)
    \<and> length vals = length actuals
    \<and> code s' = code s2 @ map PushParam (rev vals)
        @ [PushParam object, ACall addr dst,
           PopParams (int (length actuals + 1) * VarSize)]
    \<and> h = Plain dst"
proof -
  let ?T = "\<lambda>object addr. seq (EmitActuals actuals [object]) (\<lambda>params.
     seq (PushParams params) (\<lambda>_.
     seq (GenACall addr (rt \<noteq> voidType)) (\<lambda>r.
     seq (GenPopParams (int (length params) * VarSize)) (\<lambda>_.
     ret (Plain r)))))"
  have "\<exists>object s0.
      (case base of Some b \<Rightarrow> seq (Emit b) GetValue | None \<Rightarrow> GenThis) s = Inr (object, s0)
    \<and> seq (GenLoad object 0) (\<lambda>vtable. seq (GenLoad vtable off) (?T object)) s0 = Inr (h, s')"
  proof (cases base)
    case None
    with assms have "seq GenThis (\<lambda>object.
        seq (GenLoad object 0) (\<lambda>vtable. seq (GenLoad vtable off) (?T object))) s = Inr (h, s')"
      by (simp only: Emit.simps)
    then obtain object s0 where "GenThis s = Inr (object, s0)"
      and "seq (GenLoad object 0) (\<lambda>vtable. seq (GenLoad vtable off) (?T object)) s0 = Inr (h, s')"
      by (rule seqE)
    with None show ?thesis by auto
  next
    case (Some b)
    with assms have "seq (Emit b) (\<lambda>hb. seq (GetValue hb) (\<lambda>object.
        seq (GenLoad object 0) (\<lambda>vtable. seq (GenLoad vtable off) (?T object)))) s = Inr (h, s')"
      by (simp only: Emit.simps)
    then obtain hb sb where e: "Emit b s = Inr (hb, sb)"
      and e1: "seq (GetValue hb) (\<lambda>object.
        seq (GenLoad object 0) (\<lambda>vtable. seq (GenLoad vtable off) (?T object))) sb = Inr (h, s')"
      by (rule seqE)
    from e1 obtain object s0 where g: "GetValue hb sb = Inr (object, s0)"
      and e2: "seq (GenLoad object 0) (\<lambda>vtable. seq (GenLoad vtable off) (?T object)) s0
                 = Inr (h, s')"
      by (rule seqE)
    have "seq (Emit b) GetValue s = Inr (object, s0)" by (simp add: seq_def e g)
    with Some e2 show ?thesis by auto
  qed
  then obtain object s0 where
    o: "(case base of Some b \<Rightarrow> seq (Emit b) GetValue | None \<Rightarrow> GenThis) s = Inr (object, s0)"
    and l: "seq (GenLoad object 0) (\<lambda>vtable. seq (GenLoad vtable off) (?T object)) s0
              = Inr (h, s')"
    by blast
  from l obtain addr s1 where
    a: "seq (GenLoad object 0) (\<lambda>vtable. GenLoad vtable off) s0 = Inr (addr, s1)"
    and t: "?T object addr s1 = Inr (h, s')"
    by (rule method_call_loads)
  from method_call_tail[OF t] o a show ?thesis by blast
qed

theorem method_call_convention_witness:
  "Emit this_call CodeGenerator_init = Inr (Plain (Some 5), this_called)
   \<and> code this_called =
       [Load (Some 1) (Some 0) 0, Load (Some 2) (Some 1) 4, LoadConstant (Some 3) 1,
        LoadConstant (Some 4) 2]
       @ map PushParam (rev [Some 3, Some 4])
       @ [PushParam (Some 0), ACall (Some 2) (Some 5), PopParams (int (2 + 1) * VarSize)]"
proof -
  have h: "Emit (Call (Some This) (Some (MethodFn 4 intType)) [IntConstant 1, IntConstant 2])
             CodeGenerator_init = Inr (Plain (Some 5), this_called)"
    by (simp add: this_called_def gen_eval)
  from method_call_convention[OF h] h show ?thesis
    by (simp add: this_call_def this_called_def VarSize_def)
qed

text \<open>
  C6, as the spec states it, fails on the code: in the lowering of \<open>a[0] = 5\<close> the
  first instruction loads the subscript 0 of the left-hand side, and the one
  instruction of the right-hand side, which loads 5, comes after the eighteen
  instructions of the left-hand side. The right-hand side lowered first would have put
  \<open>LoadConstant 5\<close> at the head of the stream.
\<close>

theorem lhs_is_lowered_first:
  "Emit array_assignment array_local = Inr (LV None (Some 9) 0, array_assigned)
   \<and> take 1 (code array_assigned) = [LoadConstant (Some 1) 0]
   \<and> drop 18 (code array_assigned) = [LoadConstant (Some 11) 5, Store (Some 9) (Some 11) 0]
   \<and> Emit (IntConstant 5) array_local
       = Inr (Plain (Some 1),
              array_local\<lparr>code := [LoadConstant (Some 1) 5], localCounter := 2,
                nextTempNum := 1,
                locations := locations array_local @
                  [\<lparr>variableName = ''_tmp0'', segment = fpRelative, offset = - 12,
                     reg = None\<rparr>]\<rparr>)"
  by (simp add: array_assignment_def array_local_def array_assigned_def gen_eval decimal_tens)

text \<open>
  C6, amended. When the lowering of an assignment returns, it has lowered the
  left-hand side first and the right-hand side second, then read the value of the
  right-hand side, which appends a \<open>Load\<close> when the right-hand side is a computed
  address and nothing otherwise, and last appended one instruction: an \<open>Assign\<close> to
  the location of the left-hand side when it has one, or a \<open>Store\<close> of the value at
  the address and offset of the left-hand side.
\<close>

theorem AssignExpr_order:
  assumes "Emit (AssignExpr left right) s = Inr (h, s')"
  shows "\<exists>hl s1 hr s2 rhs s3 cl cr.
      Emit left s = Inr (hl, s1) \<and> code s1 = code s @ cl
    \<and> Emit right s1 = Inr (hr, s2) \<and> code s2 = code s1 @ cr
    \<and> GetValue hr s2 = Inr (rhs, s3)
    \<and> code s3 = code s2 @ (case hr of LV None addr off \<Rightarrow> [Load rhs addr off] | _ \<Rightarrow> [])
    \<and> ((\<exists>valLoc addr off. hl = LV (Some valLoc) addr off
           \<and> code s' = code s3 @ [Assign (Some valLoc) rhs])
       \<or> (\<exists>addr off. hl = LV None (Some addr) off \<and> rhs \<noteq> None
           \<and> code s' = code s3 @ [Store (Some addr) rhs off]))
    \<and> h = hl"
proof -
  from assms obtain hl s1 where l: "Emit left s = Inr (hl, s1)"
    and e1: "seq (Emit right) (\<lambda>hr.
     seq (GetValue hr) (\<lambda>rhs.
     seq (if is_LValue left then LValue_Assign hl rhs else fail NullPointer) (\<lambda>_.
     ret hl))) s1 = Inr (h, s')"
    unfolding Emit.simps by (rule seqE)
  from e1 obtain hr s2 where r: "Emit right s1 = Inr (hr, s2)"
    and e2: "seq (GetValue hr) (\<lambda>rhs.
     seq (if is_LValue left then LValue_Assign hl rhs else fail NullPointer) (\<lambda>_.
     ret hl)) s2 = Inr (h, s')"
    by (rule seqE)
  from e2 obtain rhs s3 where g: "GetValue hr s2 = Inr (rhs, s3)"
    and e3: "seq (if is_LValue left then LValue_Assign hl rhs else fail NullPointer) (\<lambda>_.
     ret hl) s3 = Inr (h, s')"
    by (rule seqE)
  from e3 have a: "LValue_Assign hl rhs s3 = Inr ((), s')" and h: "h = hl"
    by (auto simp: seq_Inr_iff split: if_splits)
  from l obtain cl where cl: "code s1 = code s @ cl" by (rule Emit_code)
  from r obtain cr where cr: "code s2 = code s1 @ cr" by (rule Emit_code)
  note cv = GetValue_code[OF g]
  have fin: "(\<exists>valLoc addr off. hl = LV (Some valLoc) addr off
           \<and> code s' = code s3 @ [Assign (Some valLoc) rhs])
       \<or> (\<exists>addr off. hl = LV None (Some addr) off \<and> rhs \<noteq> None
           \<and> code s' = code s3 @ [Store (Some addr) rhs off])"
  proof (cases hl)
    case (Plain p)
    with a show ?thesis by simp
  next
    case (LV valLoc addr off)
    show ?thesis
    proof (cases valLoc)
      case None
      with LV a show ?thesis
        by (auto simp: seq_Inr_iff GenStore_def)
    next
      case (Some v)
      with LV a show ?thesis by (simp add: GenAssign_def)
    qed
  qed
  from l cl r cr g cv fin h show ?thesis by blast
qed

theorem AssignExpr_order_witness:
  "Emit (AssignExpr (ArrayAccess (FieldAccess None (Some (VarRef 0 0))) (IntConstant 0))
           (IntConstant 5)) array_local
     = Inr (LV None (Some 9) 0, array_assigned)
   \<and> code array_assigned = code array_local @ take 18 (code array_assigned)
         @ [LoadConstant (Some 11) 5] @ [] @ [Store (Some 9) (Some 11) 0]"
proof -
  have h: "Emit (AssignExpr (ArrayAccess (FieldAccess None (Some (VarRef 0 0))) (IntConstant 0))
           (IntConstant 5)) array_local = Inr (LV None (Some 9) 0, array_assigned)"
    by (simp add: array_local_def array_assigned_def gen_eval decimal_tens)
  from AssignExpr_order[OF h] h show ?thesis
    by (simp add: array_local_def array_assigned_def)
qed

end
